theory Spec2Isabelle
  imports Complex_Main
begin

section \<open>Numbers, dates and the random source\<close>

text \<open>
  A JavaScript number is modelled as an exact \<^typ>\<open>real\<close>: the rounding error of
  double arithmetic is left out. \<^verbatim>\<open>Math.round(x)\<close> rounds to the nearest integer, a tie
  going up: it is the floor of \<open>x + 1/2\<close>.
\<close>

definition mathRound :: "real \<Rightarrow> int" where
  "mathRound x = \<lfloor>x + 1 / 2\<rfloor>"

text \<open>
  A \<^verbatim>\<open>Date\<close> is its time value, the milliseconds since the epoch, and two dates compare
  by their time values. \<^verbatim>\<open>d.setDate(d.getDate() + k)\<close> moves \<open>d\<close> by \<open>k\<close> days of the
  local calendar and keeps the local time of day; the time value that results depends on
  the time zone of the browser. The calendar is therefore a parameter \<open>cal\<close>: \<open>cal d k\<close>
  is the date \<open>k\<close> calendar days after \<open>d\<close>. In a zone whose offset never changes every
  day has 86400000 ms, which is \<open>fixedOffsetCalendar\<close>.
\<close>

type_synonym date = int

type_synonym calendar = "date \<Rightarrow> int \<Rightarrow> date"

definition msPerDay :: int where
  "msPerDay = 86400000"

definition fixedOffsetCalendar :: calendar where
  "fixedOffsetCalendar d k = d + k * msPerDay"

text \<open>
  A date field of a session is a \<^verbatim>\<open>Date\<close> object when the session was made by
  generateSampleProgressData, and a Firestore Timestamp when the session was read from the
  store: ProgressDashboard pushes \<^verbatim>\<open>doc.data()\<close> as it is. \<^verbatim>\<open>new Date(v)\<close> copies a
  \<^verbatim>\<open>Date\<close>; of a Timestamp, or of a missing value, it is an invalid date (\<open>None\<close>).
\<close>

datatype DateValue = DateObject date | FirestoreTimestamp date

definition newDate :: "DateValue option \<Rightarrow> date option" where
  "newDate v =
     (case v of
        None \<Rightarrow> None
      | Some (DateObject d) \<Rightarrow> Some d
      | Some (FirestoreTimestamp t) \<Rightarrow> None)"

text \<open>
  \<^verbatim>\<open>Math.random()\<close> reads the next value of a sequence of draws, each in \<open>[0, 1)\<close>.
  The sequence is a parameter \<open>rnd\<close>, and the number of draws made so far is threaded
  through the code as a counter.
\<close>

type_synonym rng = "nat \<Rightarrow> real"

definition validRng :: "rng \<Rightarrow> bool" where
  "validRng rnd = (\<forall>k. 0 \<le> rnd k \<and> rnd k < 1)"

section \<open>Data model (types/index.ts)\<close>

datatype TherapyType = speech | behavior | emotional | motor

datatype Feedback = easy | struggled | needs_practice

datatype Mood = happy | neutral | frustrated

text \<open>\<^verbatim>\<open>HomeTherapySession\<close>: the optional fields are options.\<close>

record HomeTherapySession =
  sessionId :: string
  childId :: string
  taskId :: string
  parentId :: string
  completed :: bool
  feedback :: "Feedback option"
  sessionNotes :: "string option"
  childMood :: "Mood option"
  completedAt :: "DateValue option"
  createdAt :: DateValue

record WeeklySummary =
  weekStart :: date
  weekEnd :: date
  tasksCompleted :: nat
  totalTasks :: nat
  completionRate :: int
  engagementRate :: int

section \<open>Weekly summary (utils/progressData.ts, generateWeeklySummary)\<close>

text \<open>
  The filter of the loop body, \<^verbatim>\<open>sessionDate = new Date(s.completedAt)\<close> and
  \<^verbatim>\<open>sessionDate >= weekStart && sessionDate <= weekEnd\<close>: an invalid date compares false
  with everything.
\<close>

definition inWeek :: "date \<Rightarrow> date \<Rightarrow> 'a HomeTherapySession_scheme \<Rightarrow> bool" where
  "inWeek ws we s =
     (case newDate (completedAt s) of
        None \<Rightarrow> False
      | Some sessionDate \<Rightarrow> sessionDate \<ge> ws \<and> sessionDate \<le> we)"

text \<open>One iteration of the loop: the bucket of \<open>weekIndex\<close>, with the draw \<open>r\<close> it makes.\<close>

definition weekBucket ::
  "calendar \<Rightarrow> 'a HomeTherapySession_scheme list \<Rightarrow> date \<Rightarrow> nat \<Rightarrow> real \<Rightarrow> WeeklySummary" where
  "weekBucket cal sessions today weekIndex r =
     (let ws = cal today (- (int weekIndex * 7) - 7);
          we = cal ws 6;
          weekSessions = filter (inWeek ws we) sessions;
          completedN = length (filter completed weekSessions);
          total = length weekSessions
      in \<lparr> weekStart = ws,
           weekEnd = we,
           tasksCompleted = completedN,
           totalTasks = total,
           completionRate =
             (if total > 0 then mathRound ((real completedN / real total) * 100) else 0),
           engagementRate = mathRound (r * 30 + 70) \<rparr>)"

text \<open>
  The loop \<^verbatim>\<open>for (weekIndex = 0; weekIndex < 4; weekIndex++)\<close>, pushing one bucket per
  iteration; \<open>k\<close> counts the draws made before the call.
\<close>

function weeklyLoop ::
  "calendar \<Rightarrow> 'a HomeTherapySession_scheme list \<Rightarrow> date \<Rightarrow> rng \<Rightarrow> nat \<Rightarrow> nat
     \<Rightarrow> WeeklySummary list \<Rightarrow> WeeklySummary list" where
  "weeklyLoop cal sessions today rnd k weekIndex weeks =
     (if weekIndex < 4
      then weeklyLoop cal sessions today rnd k (weekIndex + 1)
             (weeks @ [weekBucket cal sessions today weekIndex (rnd (k + weekIndex))])
      else weeks)"
  by pat_completeness auto
termination
  by (relation "measure (\<lambda>(cal, sessions, today, rnd, k, weekIndex, weeks). 4 - weekIndex)") auto

declare weeklyLoop.simps [simp del]

definition generateWeeklySummary ::
  "calendar \<Rightarrow> 'a HomeTherapySession_scheme list \<Rightarrow> date \<Rightarrow> rng \<Rightarrow> nat \<Rightarrow> WeeklySummary list" where
  "generateWeeklySummary cal sessions today rnd k =
     rev (weeklyLoop cal sessions today rnd k 0 [])"

text \<open>The overall rate of the dashboard (ProgressDashboard.tsx, lines 151-152).\<close>

definition dashboardCompletionRate :: "'a HomeTherapySession_scheme list \<Rightarrow> int" where
  "dashboardCompletionRate sessions =
     (let completedCount = length (filter completed sessions)
      in if length sessions > 0
         then mathRound ((real completedCount / real (length sessions)) * 100)
         else 0)"

section \<open>Synthetic sessions (utils/progressData.ts, generateSampleProgressData)\<close>

text \<open>A number in a template string: its decimal digits.\<close>

fun showNat :: "nat \<Rightarrow> string" where
  "showNat n =
     (if n < 10 then [''0123456789'' ! n]
      else showNat (n div 10) @ [''0123456789'' ! (n mod 10)])"

declare showNat.simps [simp del]

text \<open>\<^verbatim>\<open>dayProgress = i / days\<close> and \<^verbatim>\<open>completionChance = 0.5 + (dayProgress * 0.4)\<close>.\<close>

definition dayProgress :: "nat \<Rightarrow> nat \<Rightarrow> real" where
  "dayProgress days i = real i / real days"

definition completionChance :: "nat \<Rightarrow> nat \<Rightarrow> real" where
  "completionChance days i = 5 / 10 + (dayProgress days i * (4 / 10))"

text \<open>The feedback chosen from the draw \<open>rand\<close>, by the band of the day.\<close>

definition pickFeedback :: "real \<Rightarrow> real \<Rightarrow> Feedback" where
  "pickFeedback progress rand =
     (if progress > 7 / 10
      then (if rand < 7 / 10 then easy else (if rand < 9 / 10 then needs_practice else struggled))
      else if progress > 4 / 10
      then (if rand < 4 / 10 then easy else (if rand < 7 / 10 then needs_practice else struggled))
      else (if rand < 2 / 10 then easy else (if rand < 6 / 10 then needs_practice else struggled)))"

text \<open>
  The mood follows the feedback. It makes one draw, or two for \<open>needs_practice\<close> when the
  first draw is not below 0.5; the result carries the draw counter.
\<close>

definition pickMood :: "Feedback \<Rightarrow> rng \<Rightarrow> nat \<Rightarrow> Mood \<times> nat" where
  "pickMood fb rnd k =
     (if fb = easy
      then (if rnd k < 8 / 10 then happy else neutral, k + 1)
      else if fb = needs_practice
      then (if rnd k < 5 / 10 then (neutral, k + 1)
            else (if rnd (k + 1) < 7 / 10 then happy else frustrated, k + 2))
      else (if rnd k < 6 / 10 then frustrated else neutral, k + 1))"

text \<open>One iteration of the loop, for day \<open>i\<close> before today (\<open>i = 0\<close> is today).\<close>

definition sampleSession ::
  "calendar \<Rightarrow> string \<Rightarrow> date \<Rightarrow> nat \<Rightarrow> nat \<Rightarrow> rng \<Rightarrow> nat \<Rightarrow> HomeTherapySession \<times> nat" where
  "sampleSession cal cid today days i rnd k =
     (let date = cal today (- int i);
          rand = rnd k;
          fb = pickFeedback (dayProgress days i) rand;
          (mood, k2) = pickMood fb rnd (k + 1)
      in (\<lparr> sessionId = ''session_'' @ cid @ ''_'' @ showNat i,
            childId = cid,
            taskId = ''task_'' @ showNat (i mod 7),
            parentId = ''parent_id'',
            completed = (rnd k2 < completionChance days i),
            feedback = Some fb,
            sessionNotes = Some [],
            childMood = Some mood,
            completedAt = Some (DateObject date),
            createdAt = DateObject date \<rparr>, k2 + 1))"

function sampleLoop ::
  "calendar \<Rightarrow> string \<Rightarrow> date \<Rightarrow> nat \<Rightarrow> rng \<Rightarrow> nat \<Rightarrow> nat \<Rightarrow> HomeTherapySession list
     \<Rightarrow> HomeTherapySession list" where
  "sampleLoop cal cid today days rnd i k sessions =
     (if i < days
      then sampleLoop cal cid today days rnd (i + 1)
             (snd (sampleSession cal cid today days i rnd k))
             (sessions @ [fst (sampleSession cal cid today days i rnd k)])
      else sessions)"
  by pat_completeness auto
termination
  by (relation "measure (\<lambda>(cal, cid, today, days, rnd, i, k, sessions). days - i)") auto

declare sampleLoop.simps [simp del]

definition generateSampleProgressData ::
  "calendar \<Rightarrow> string \<Rightarrow> nat \<Rightarrow> date \<Rightarrow> rng \<Rightarrow> nat \<Rightarrow> HomeTherapySession list" where
  "generateSampleProgressData cal cid days today rnd k =
     rev (sampleLoop cal cid today days rnd 0 k [])"

text \<open>
  The record at position \<open>p\<close> of the result is the one of iteration \<open>days - 1 - p\<close>, and it
  is completed exactly when its draw is below \<open>completionChance\<close> of that iteration: with a
  uniform draw, that is the probability of completion at position \<open>p\<close>. The expected
  completion rate over some positions is the mean of these probabilities.
\<close>

definition expectedCompletionRate :: "nat \<Rightarrow> nat list \<Rightarrow> real" where
  "expectedCompletionRate days positions =
     (\<Sum>p\<leftarrow>positions. completionChance days (days - 1 - p)) / real (length positions)"

text \<open>
  What one iteration fixes whatever the draws are: the date of the record, and that its
  completion is a draw compared with \<open>completionChance\<close> of the iteration.
\<close>

definition builtOn :: "calendar \<Rightarrow> date \<Rightarrow> nat \<Rightarrow> rng \<Rightarrow> nat \<Rightarrow> HomeTherapySession \<Rightarrow> bool" where
  "builtOn cal today days rnd i s =
     (completedAt s = Some (DateObject (cal today (- int i)))
      \<and> (\<exists>j. completed s = (rnd j < completionChance days i)))"

section \<open>Treatment plans (types/index.ts)\<close>

text \<open>
  A weekly goal is stored either as a plain string (old format) or as an object with a
  goal text and a category (new format); a stored object may lack its category.
\<close>

record WeeklyGoal =
  goal :: string
  category :: "TherapyType option"

datatype StoredGoal = GoalString string | GoalObject WeeklyGoal

text \<open>A task as the summary returns it, and the task as it is saved.\<close>

record SummaryTask =
  title :: string
  description :: string
  whyItMatters :: string
  weeklyGoalIndex :: int

record DailyTask = SummaryTask +
  id_task :: string
  demoVideoUrl :: "string option"
  demoVideoSuggestion :: "string option"
  editable :: bool
  createdAt_task :: date

text \<open>
  The object parsed from the summary's JSON. \<open>therapyType\<close> and \<open>dailyTasks\<close> may be
  missing from it.
\<close>

record SummaryJSON =
  summary :: string
  therapyType :: "TherapyType option"
  weeklyGoals :: "StoredGoal list"
  dailyTasks :: "SummaryTask list option"

record TreatmentPlan =
  childId_plan :: string
  therapistId_plan :: string
  voiceRecordingUrl :: string
  transcription :: string
  documentUrl :: string
  summary_plan :: string
  therapyType_plan :: "TherapyType option"
  weeklyGoals_plan :: "StoredGoal list"
  dailyTasks_plan :: "DailyTask list"
  createdAt_plan :: date
  updatedAt :: date

section \<open>Reading weekly goals (DailyTasks and TreatmentPlanView)\<close>

text \<open>
  Both views map every stored goal to its text and category:
  \<^verbatim>\<open>isNewFormat = typeof goal === 'object' && 'goal' in goal\<close>,
  \<^verbatim>\<open>goalText = isNewFormat ? goal.goal : goal\<close>,
  \<^verbatim>\<open>category = isNewFormat ? goal.category : null\<close>.
\<close>

fun normalizeGoal :: "StoredGoal \<Rightarrow> WeeklyGoal" where
  "normalizeGoal (GoalString s) = \<lparr> goal = s, category = None \<rparr>"
| "normalizeGoal (GoalObject g) = \<lparr> goal = goal g, category = category g \<rparr>"

definition normalizeWeeklyGoals :: "StoredGoal list \<Rightarrow> WeeklyGoal list" where
  "normalizeWeeklyGoals goals = map normalizeGoal goals"

section \<open>External services (services/openai.ts, Firebase storage and Firestore)\<close>

datatype error =
  StorageFailure | OpenAIFailure | JSONSyntaxError | TypeError | FirestoreFailure | NotFound

record File =
  fileName :: string
  fileData :: string

text \<open>
  The fixed prompt texts of a chat request are named by a tag; a request is determined by
  the model, the tag and the text that varies.
\<close>

datatype Prompt = SummaryPrompt bool | VideoPrompt bool

text \<open>
  What the outside world answers: each call either fails with an error or returns.
  \<open>chatCompletion\<close> returns the content of the first choice, which may be null.
\<close>

record Services =
  uploadBytes :: "string \<Rightarrow> File \<Rightarrow> error option"
  getDownloadURL :: "string \<Rightarrow> error + string"
  whisper :: "File \<Rightarrow> error + string"
  chatCompletion :: "string \<Rightarrow> Prompt \<Rightarrow> string \<Rightarrow> error + string option"
  jsonParse :: "string \<Rightarrow> error + SummaryJSON option"
  firestoreWrite :: "string \<Rightarrow> error option"

text \<open>\<^verbatim>\<open>x || d\<close> for a value \<open>x\<close> that may be missing: \<open>x\<close> if it is there, else \<open>d\<close>.\<close>

definition orDefault :: "'a option \<Rightarrow> 'a \<Rightarrow> 'a" where
  "orDefault x d = (case x of None \<Rightarrow> d | Some v \<Rightarrow> v)"

text \<open>Each service function catches the error, logs it and throws it again.\<close>

definition transcribeAudio :: "Services \<Rightarrow> File \<Rightarrow> error + string" where
  "transcribeAudio sv audioFile =
     (case whisper sv audioFile of Inl e \<Rightarrow> Inl e | Inr text \<Rightarrow> Inr text)"

definition summarizeTreatmentPlan ::
  "Services \<Rightarrow> string \<Rightarrow> string \<Rightarrow> error + SummaryJSON option" where
  "summarizeTreatmentPlan sv transcript language =
     (case chatCompletion sv ''gpt-4o'' (SummaryPrompt (language = ''ar'')) transcript of
        Inl e \<Rightarrow> Inl e
      | Inr content \<Rightarrow>
          (case content of
             None \<Rightarrow> Inr None
           | Some c \<Rightarrow> if c = [] then Inr None else jsonParse sv c))"

definition generateDemoVideoSuggestion :: "Services \<Rightarrow> string \<Rightarrow> string \<Rightarrow> error + string" where
  "generateDemoVideoSuggestion sv taskDescription language =
     (case chatCompletion sv ''gpt-4'' (VideoPrompt (language = ''ar'')) taskDescription of
        Inl e \<Rightarrow> Inl e
      | Inr content \<Rightarrow> Inr (orDefault content []))"

section \<open>The pipeline (TreatmentPlanForm and VoiceRecorder, handleSubmit)\<close>

text \<open>What the pipeline writes to: the stored objects and the plan collection.\<close>

record Backend =
  storageObjects :: "(string \<times> File) list"
  treatmentPlans :: "TreatmentPlan list"

datatype Outcome = NotSubmitted | Failed error | Created

text \<open>\<^verbatim>\<open>await uploadBytes(ref, file); url = await getDownloadURL(ref)\<close>.\<close>

definition uploadFile ::
  "Services \<Rightarrow> string \<Rightarrow> File \<Rightarrow> Backend \<Rightarrow> (error + string) \<times> Backend" where
  "uploadFile sv path f be =
     (case uploadBytes sv path f of
        Some e \<Rightarrow> (Inl e, be)
      | None \<Rightarrow>
          (getDownloadURL sv path, be\<lparr> storageObjects := storageObjects be @ [(path, f)] \<rparr>))"

text \<open>
  Step 4, \<^verbatim>\<open>Promise.all(summary.dailyTasks.map(async (task, index) => ...))\<close>: every
  task asks for its suggestion, and the whole promise rejects when one request rejects (the
  model reports the rejection of the first such task of the list). \<open>now\<close> is the clock.
\<close>

fun enrichTasks ::
  "Services \<Rightarrow> string \<Rightarrow> nat \<Rightarrow> nat \<Rightarrow> SummaryTask list \<Rightarrow> error + DailyTask list" where
  "enrichTasks sv language now index [] = Inr []"
| "enrichTasks sv language now index (task # rest) =
     (case generateDemoVideoSuggestion sv (description task) language of
        Inl e \<Rightarrow> Inl e
      | Inr videoSuggestion \<Rightarrow>
          (case enrichTasks sv language now (index + 1) rest of
             Inl e \<Rightarrow> Inl e
           | Inr others \<Rightarrow>
               Inr (\<lparr> title = title task,
                      description = description task,
                      whyItMatters = whyItMatters task,
                      weeklyGoalIndex = weeklyGoalIndex task,
                      id_task = ''task_'' @ showNat now @ ''_'' @ showNat index,
                      demoVideoUrl = None,
                      demoVideoSuggestion = Some videoSuggestion,
                      editable = True,
                      createdAt_task = int now \<rparr> # others)))"

text \<open>Step 5: the document URL stays empty when no document is given.\<close>

definition uploadDocument ::
  "Services \<Rightarrow> string \<Rightarrow> File option \<Rightarrow> Backend \<Rightarrow> (error + string) \<times> Backend" where
  "uploadDocument sv pathPrefix documentFile be =
     (case documentFile of
        None \<Rightarrow> (Inr [], be)
      | Some df \<Rightarrow> uploadFile sv (pathPrefix @ fileName df) df be)"

text \<open>Step 6, \<^verbatim>\<open>addDoc(collection(db, 'treatmentPlans'), plan)\<close>.\<close>

definition savePlan :: "Services \<Rightarrow> TreatmentPlan \<Rightarrow> Backend \<Rightarrow> Outcome \<times> Backend" where
  "savePlan sv plan be =
     (case firestoreWrite sv ''treatmentPlans'' of
        Some e \<Rightarrow> (Failed e, be)
      | None \<Rightarrow> (Created, be\<lparr> treatmentPlans := treatmentPlans be @ [plan] \<rparr>))"

text \<open>
  TreatmentPlanForm.handleSubmit. Reading \<open>dailyTasks\<close> of a null summary, or mapping
  over missing \<open>dailyTasks\<close>, throws a TypeError. Every error thrown in the body is caught
  at its end and shown; the plan object has no therapy type.
\<close>

definition formHandleSubmit ::
  "Services \<Rightarrow> string option \<Rightarrow> string \<Rightarrow> string \<Rightarrow> File option \<Rightarrow> File option \<Rightarrow> nat
     \<Rightarrow> Backend \<Rightarrow> Outcome \<times> Backend" where
  "formHandleSubmit sv currentUser cid language voiceFile documentFile now be =
     (case (currentUser, voiceFile) of
        (Some uid, Some vf) \<Rightarrow>
     (case uploadFile sv (''voice-recordings/'' @ showNat now @ ''_'' @ fileName vf) vf be of
        (Inl e, be1) \<Rightarrow> (Failed e, be1)
      | (Inr voiceUrl, be1) \<Rightarrow>
     (case transcribeAudio sv vf of
        Inl e \<Rightarrow> (Failed e, be1)
      | Inr transcript \<Rightarrow>
     (case summarizeTreatmentPlan sv transcript language of
        Inl e \<Rightarrow> (Failed e, be1)
      | Inr None \<Rightarrow> (Failed TypeError, be1)
      | Inr (Some sm) \<Rightarrow>
     (case dailyTasks sm of
        None \<Rightarrow> (Failed TypeError, be1)
      | Some tasks \<Rightarrow>
     (case enrichTasks sv language now 0 tasks of
        Inl e \<Rightarrow> (Failed e, be1)
      | Inr dailyTasksWithSuggestions \<Rightarrow>
     (case uploadDocument sv (''documents/'' @ showNat now @ ''_'') documentFile be1 of
        (Inl e, be2) \<Rightarrow> (Failed e, be2)
      | (Inr docUrl, be2) \<Rightarrow>
          savePlan sv
            \<lparr> childId_plan = cid,
              therapistId_plan = uid,
              voiceRecordingUrl = voiceUrl,
              transcription = transcript,
              documentUrl = docUrl,
              summary_plan = summary sm,
              therapyType_plan = None,
              weeklyGoals_plan = weeklyGoals sm,
              dailyTasks_plan = dailyTasksWithSuggestions,
              createdAt_plan = int now,
              updatedAt = int now \<rparr> be2))))))
      | _ \<Rightarrow> (NotSubmitted, be))"

text \<open>
  VoiceRecorder.handleSubmit: the audio is the uploaded file or the recorded blob, made a
  file named recording.webm; the paths carry the child id; the suggestions are asked in
  the default language \<open>en\<close>; the therapy type is the summary's, or behavior.
\<close>

datatype Mode = record_mode | upload_mode

definition recorderHandleSubmit ::
  "Services \<Rightarrow> string option \<Rightarrow> string \<Rightarrow> string \<Rightarrow> Mode \<Rightarrow> File option \<Rightarrow> string option
     \<Rightarrow> File option \<Rightarrow> nat \<Rightarrow> Backend \<Rightarrow> Outcome \<times> Backend" where
  "recorderHandleSubmit sv currentUser cid language mode uploadedFile audioBlob documentFile
       now be =
     (case currentUser of
        None \<Rightarrow> (NotSubmitted, be)
      | Some uid \<Rightarrow>
     (case (if mode = upload_mode then uploadedFile
            else map_option (\<lambda>blob. \<lparr> fileName = ''recording.webm'', fileData = blob \<rparr>)
                   audioBlob) of
        None \<Rightarrow> (NotSubmitted, be)
      | Some audioFile \<Rightarrow>
     (case uploadFile sv
             (''voice-recordings/'' @ showNat now @ ''_'' @ cid @ ''_'' @ fileName audioFile)
             audioFile be of
        (Inl e, be1) \<Rightarrow> (Failed e, be1)
      | (Inr voiceUrl, be1) \<Rightarrow>
     (case transcribeAudio sv audioFile of
        Inl e \<Rightarrow> (Failed e, be1)
      | Inr transcript \<Rightarrow>
     (case summarizeTreatmentPlan sv transcript language of
        Inl e \<Rightarrow> (Failed e, be1)
      | Inr None \<Rightarrow> (Failed TypeError, be1)
      | Inr (Some sm) \<Rightarrow>
     (case dailyTasks sm of
        None \<Rightarrow> (Failed TypeError, be1)
      | Some tasks \<Rightarrow>
     (case enrichTasks sv ''en'' now 0 tasks of
        Inl e \<Rightarrow> (Failed e, be1)
      | Inr dailyTasksWithSuggestions \<Rightarrow>
     (case uploadDocument sv (''documents/'' @ showNat now @ ''_'' @ cid @ ''_'') documentFile be1 of
        (Inl e, be2) \<Rightarrow> (Failed e, be2)
      | (Inr docUrl, be2) \<Rightarrow>
          savePlan sv
            \<lparr> childId_plan = cid,
              therapistId_plan = uid,
              voiceRecordingUrl = voiceUrl,
              transcription = transcript,
              documentUrl = docUrl,
              summary_plan = summary sm,
              therapyType_plan = Some (orDefault (therapyType sm) behavior),
              weeklyGoals_plan = weeklyGoals sm,
              dailyTasks_plan = dailyTasksWithSuggestions,
              createdAt_plan = int now,
              updatedAt = int now \<rparr> be2))))))))"

section \<open>Children (ParentProfile.handleAddChild, PatientList.handleAssignToMe)\<close>

text \<open>
  A document of the children collection. A child created by a therapist has the empty
  string as parentId; a child created by a parent has no therapistId. The collection is
  the list of its documents with their ids.
\<close>

record ChildDoc =
  name_child :: string
  nationalId :: string
  parentId_child :: string
  therapistId_child :: "string option"
  createdAt_child :: date

type_synonym children = "(string \<times> ChildDoc) list"

datatype LinkOutcome = NoUser | Conflict | Errored error | Linked

text \<open>\<^verbatim>\<open>updateDoc(doc(db, 'children', id), fields)\<close> fails when there is no such document.\<close>

definition updateDoc :: "string \<Rightarrow> (ChildDoc \<Rightarrow> ChildDoc) \<Rightarrow> children \<Rightarrow> error + children" where
  "updateDoc docId change docs =
     (if docId \<in> set (map fst docs)
      then Inr (map (\<lambda>(i, c). if i = docId then (i, change c) else (i, c)) docs)
      else Inl NotFound)"

text \<open>
  handleAddChild: the parent gives a name and a national id. An existing child of that
  national id is linked to the parent unless it has another parent; otherwise a new
  document is added under the fresh id \<open>newId\<close>.
\<close>

definition handleAddChild ::
  "string option \<Rightarrow> string \<Rightarrow> string \<Rightarrow> string \<Rightarrow> nat \<Rightarrow> children \<Rightarrow> LinkOutcome \<times> children" where
  "handleAddChild currentUser childName nid newId now docs =
     (case currentUser of
        None \<Rightarrow> (NoUser, docs)
      | Some uid \<Rightarrow>
          (case filter (\<lambda>(i, c). nationalId c = nid) docs of
             (docId, childData) # others \<Rightarrow>
               if parentId_child childData \<noteq> [] \<and> parentId_child childData \<noteq> uid
               then (Conflict, docs)
               else (case updateDoc docId
                            (\<lambda>c. c\<lparr> parentId_child := uid, name_child := childName \<rparr>) docs of
                       Inl e \<Rightarrow> (Errored e, docs)
                     | Inr docs' \<Rightarrow> (Linked, docs'))
           | [] \<Rightarrow>
               (Linked,
                docs @ [(newId, \<lparr> name_child = childName, nationalId = nid, parentId_child = uid,
                                  therapistId_child = None, createdAt_child = int now \<rparr>)])))"

text \<open>
  handleAssignToMe: the therapist takes a child of the search results. The argument is
  the child as the search returned it, with its document id.
\<close>

definition handleAssignToMe ::
  "string option \<Rightarrow> string \<times> ChildDoc \<Rightarrow> children \<Rightarrow> LinkOutcome \<times> children" where
  "handleAssignToMe currentUser child docs =
     (case currentUser of
        None \<Rightarrow> (NoUser, docs)
      | Some uid \<Rightarrow>
          (case updateDoc (fst child) (\<lambda>c. c\<lparr> therapistId_child := Some uid \<rparr>) docs of
             Inl e \<Rightarrow> (Errored e, docs)
           | Inr docs' \<Rightarrow> (Linked, docs')))"

text \<open>The search results show the button of handleAssignToMe when \<^verbatim>\<open>!child.therapistId\<close>.\<close>

definition assignButtonShown :: "string \<times> ChildDoc \<Rightarrow> bool" where
  "assignButtonShown child =
     (case therapistId_child (snd child) of None \<Rightarrow> True | Some t \<Rightarrow> t = [])"

section \<open>Concrete inputs\<close>

text \<open>Concrete inputs on which the definitions are run.\<close>

definition exampleSession :: "bool \<Rightarrow> DateValue option \<Rightarrow> HomeTherapySession" where
  "exampleSession done tm =
     \<lparr> sessionId = ''s'', childId = ''c'', taskId = ''task_0'', parentId = ''parent_id'',
       completed = done, feedback = Some easy, sessionNotes = Some [],
       childMood = Some happy, completedAt = tm, createdAt = DateObject 0 \<rparr>"

definition fixedDraws :: "real \<Rightarrow> rng" where
  "fixedDraws r k = r"

definition shrinkingDraws :: rng where
  "shrinkingDraws k = 1 / (real k + 2)"

definition todaySample :: date where
  "todaySample = 2592000000"

text \<open>Three generated sessions of three days ago, two of them completed.\<close>

definition threeSessions :: "HomeTherapySession list" where
  "threeSessions =
     [exampleSession True (Some (DateObject (todaySample - 3 * msPerDay))),
      exampleSession True (Some (DateObject (todaySample - 3 * msPerDay))),
      exampleSession False (Some (DateObject (todaySample - 3 * msPerDay)))]"

text \<open>
  A session completed one hour ago, one completed seven and a half days ago, and one read
  from the store that was completed three days ago.
\<close>

definition recentSession :: HomeTherapySession where
  "recentSession = exampleSession True (Some (DateObject (todaySample - 3600000)))"

definition gapSession :: HomeTherapySession where
  "gapSession = exampleSession True (Some (DateObject (todaySample - 648000000)))"

definition storedSession :: HomeTherapySession where
  "storedSession = exampleSession True (Some (FirestoreTimestamp (todaySample - 3 * msPerDay)))"

text \<open>
  Services that answer every call, except for the names listed in \<open>failing\<close>: a file of
  such a name is not stored, a chat request about such a text fails, and the word
  \<open>whisper\<close> makes the transcription fail. The summary parsed is \<open>sm\<close>.
\<close>

definition testServices :: "SummaryJSON option \<Rightarrow> string list \<Rightarrow> Services" where
  "testServices sm failing =
     \<lparr> uploadBytes = (\<lambda>path f. if fileName f \<in> set failing then Some StorageFailure else None),
       getDownloadURL = (\<lambda>path. Inr path),
       whisper = (\<lambda>f. if ''whisper'' \<in> set failing then Inl OpenAIFailure else Inr (fileData f)),
       chatCompletion =
         (\<lambda>model prompt text. if text \<in> set failing then Inl OpenAIFailure else Inr (Some text)),
       jsonParse = (\<lambda>c. Inr sm),
       firestoreWrite = (\<lambda>collection. None) \<rparr>"

definition voiceExample :: File where
  "voiceExample = \<lparr> fileName = ''session.webm'', fileData = ''balancing on one foot'' \<rparr>"

definition documentExample :: File where
  "documentExample = \<lparr> fileName = ''plan.pdf'', fileData = ''pdf'' \<rparr>"

definition taskExample :: "string \<Rightarrow> int \<Rightarrow> SummaryTask" where
  "taskExample d i =
     \<lparr> title = ''Balance'', description = d, whyItMatters = ''It builds stability'',
       weeklyGoalIndex = i \<rparr>"

definition summaryExample :: "SummaryTask list \<Rightarrow> SummaryJSON" where
  "summaryExample tasks =
     \<lparr> summary = ''Work on balance'',
       therapyType = Some motor,
       weeklyGoals = [GoalObject \<lparr> goal = ''improve balance'', category = Some motor \<rparr>,
                      GoalString ''say ten words''],
       dailyTasks = Some tasks \<rparr>"

definition emptyBackend :: Backend where
  "emptyBackend = \<lparr> storageObjects = [], treatmentPlans = [] \<rparr>"

definition indexSevenServices :: Services where
  "indexSevenServices = testServices (Some (summaryExample [taskExample ''stand on one foot'' 7])) []"

definition hopFailsServices :: Services where
  "hopFailsServices =
     testServices (Some (summaryExample [taskExample ''stand on one foot'' 0, taskExample ''hop'' 0]))
       [''hop'']"

definition documentFailsServices :: Services where
  "documentFailsServices =
     testServices (Some (summaryExample [taskExample ''stand on one foot'' 0])) [''plan.pdf'']"

definition samExample :: "string \<Rightarrow> string option \<Rightarrow> ChildDoc" where
  "samExample parent therapist =
     \<lparr> name_child = ''Sam'', nationalId = ''1234567890'', parentId_child = parent,
       therapistId_child = therapist, createdAt_child = 0 \<rparr>"


section \<open>Facts about the weekly summary\<close>

lemma weeklyLoop_unfold:
  "weeklyLoop cal sessions today rnd k 0 [] =
     [weekBucket cal sessions today 0 (rnd k),
      weekBucket cal sessions today 1 (rnd (k + 1)),
      weekBucket cal sessions today 2 (rnd (k + 2)),
      weekBucket cal sessions today 3 (rnd (k + 3))]"
proof -
  have step: "\<And>w ws. w < 4 \<Longrightarrow>
      weeklyLoop cal sessions today rnd k w ws =
        weeklyLoop cal sessions today rnd k (w + 1)
          (ws @ [weekBucket cal sessions today w (rnd (k + w))])"
    by (subst weeklyLoop.simps) simp
  have stop: "\<And>ws. weeklyLoop cal sessions today rnd k 4 ws = ws"
    by (subst weeklyLoop.simps) simp
  show ?thesis
    using step [of 0 "[]"] step [of 1] step [of 2] step [of 3] stop
    by (simp add: numeral_eq_Suc)
qed

lemma generateWeeklySummary_buckets:
  "generateWeeklySummary cal sessions today rnd k =
     [weekBucket cal sessions today 3 (rnd (k + 3)),
      weekBucket cal sessions today 2 (rnd (k + 2)),
      weekBucket cal sessions today 1 (rnd (k + 1)),
      weekBucket cal sessions today 0 (rnd k)]"
  by (simp add: generateWeeklySummary_def weeklyLoop_unfold)

lemma generateWeeklySummary_nth:
  assumes "w < 4"
  shows "generateWeeklySummary cal sessions today rnd k ! (3 - w)
           = weekBucket cal sessions today w (rnd (k + w))"
proof -
  from assms consider "w = 0" | "w = 1" | "w = 2" | "w = 3" by linarith
  then show ?thesis
    by cases (simp_all add: generateWeeklySummary_buckets)
qed

lemma inWeek_iff:
  "inWeek ws we = (\<lambda>s. \<exists>t. completedAt s = Some (DateObject t) \<and> ws \<le> t \<and> t \<le> we)"
  by (rule ext) (auto simp: inWeek_def newDate_def split: option.splits DateValue.splits)

lemma weekBucket_fields:
  "weekStart (weekBucket cal sessions today w r) = cal today (- (int w * 7) - 7)"
  "weekEnd (weekBucket cal sessions today w r) = cal (cal today (- (int w * 7) - 7)) 6"
  "totalTasks (weekBucket cal sessions today w r) =
     length (filter (inWeek (cal today (- (int w * 7) - 7))
                            (cal (cal today (- (int w * 7) - 7)) 6)) sessions)"
  "tasksCompleted (weekBucket cal sessions today w r) =
     length (filter completed
       (filter (inWeek (cal today (- (int w * 7) - 7))
                       (cal (cal today (- (int w * 7) - 7)) 6)) sessions))"
  "engagementRate (weekBucket cal sessions today w r) = mathRound (r * 30 + 70)"
  by (simp_all add: weekBucket_def Let_def)

lemma weekBucket_completionRate:
  "completionRate (weekBucket cal sessions today w r) =
     (if totalTasks (weekBucket cal sessions today w r) > 0
      then mathRound ((real (tasksCompleted (weekBucket cal sessions today w r))
                        / real (totalTasks (weekBucket cal sessions today w r))) * 100)
      else 0)"
  by (simp add: weekBucket_def Let_def)

lemma mathRound_nearest: "\<bar>real_of_int (mathRound x) - x\<bar> \<le> 1 / 2"
  unfolding mathRound_def by linarith

lemma mathRound_whole: "t > 0 \<Longrightarrow> mathRound ((real t / real t) * 100) = 100"
  by (simp add: mathRound_def)

lemma mathRound_engagement:
  "0 \<le> r \<Longrightarrow> r < 1 \<Longrightarrow> 70 \<le> mathRound (r * 30 + 70) \<and> mathRound (r * 30 + 70) \<le> 100"
  unfolding mathRound_def by (simp add: le_floor_iff floor_le_iff)

lemma exampleSession_fields [simp]:
  "completed (exampleSession done tm) = done"
  "completedAt (exampleSession done tm) = tm"
  by (simp_all add: exampleSession_def)

lemma validRng_fixedDraws: "0 \<le> r \<Longrightarrow> r < 1 \<Longrightarrow> validRng (fixedDraws r)"
  by (simp add: validRng_def fixedDraws_def)

lemma validRng_shrinkingDraws: "validRng shrinkingDraws"
  by (simp add: validRng_def shrinkingDraws_def)

lemma generateWeeklySummary_member:
  assumes "b \<in> set (generateWeeklySummary cal sessions today rnd k)"
  shows "\<exists>w<4. b = weekBucket cal sessions today w (rnd (k + w))"
proof -
  from assms have "b = weekBucket cal sessions today 3 (rnd (k + 3))
      \<or> b = weekBucket cal sessions today 2 (rnd (k + 2))
      \<or> b = weekBucket cal sessions today 1 (rnd (k + 1))
      \<or> b = weekBucket cal sessions today 0 (rnd (k + 0))"
    by (auto simp: generateWeeklySummary_buckets)
  then show ?thesis
  proof (elim disjE)
    assume "b = weekBucket cal sessions today 3 (rnd (k + 3))"
    then show ?thesis by (intro exI [of _ 3]) simp
  next
    assume "b = weekBucket cal sessions today 2 (rnd (k + 2))"
    then show ?thesis by (intro exI [of _ 2]) simp
  next
    assume "b = weekBucket cal sessions today 1 (rnd (k + 1))"
    then show ?thesis by (intro exI [of _ 1]) simp
  next
    assume "b = weekBucket cal sessions today 0 (rnd (k + 0))"
    then show ?thesis by (intro exI [of _ 0]) simp
  qed
qed

text \<open>
  The rate of one bucket against the sessions: \<open>n\<close> sessions lie in the window of the
  bucket and \<open>c\<close> of them are completed.
\<close>

lemma weekBucket_rate_of_sessions:
  fixes sessions :: "'a HomeTherapySession_scheme list"
  assumes b: "b = weekBucket cal sessions today w r"
    and n: "n = length (filter (\<lambda>s. \<exists>t. completedAt s = Some (DateObject t)
                  \<and> cal today (- (int w * 7) - 7) \<le> t
                  \<and> t \<le> cal (cal today (- (int w * 7) - 7)) 6) sessions)"
    and c: "c = length (filter (\<lambda>s. completed s \<and> (\<exists>t. completedAt s = Some (DateObject t)
                  \<and> cal today (- (int w * 7) - 7) \<le> t
                  \<and> t \<le> cal (cal today (- (int w * 7) - 7)) 6)) sessions)"
  shows "totalTasks b = n \<and> tasksCompleted b = c
     \<and> (n = 0 \<longrightarrow> completionRate b = 0)
     \<and> (n > 0 \<longrightarrow> \<bar>real_of_int (completionRate b) - 100 * real c / real n\<bar> \<le> 1 / 2)
     \<and> (n > 0 \<and> c = n \<longrightarrow> completionRate b = 100)"
proof -
  have tt: "totalTasks b = n"
    by (simp add: b n weekBucket_fields inWeek_iff)
  have tc: "tasksCompleted b = c"
    by (simp add: b c weekBucket_fields inWeek_iff conj_commute)
  have cr: "completionRate b =
       (if n > 0 then mathRound ((real c / real n) * 100) else 0)"
    using weekBucket_completionRate [of cal sessions today w r] tt tc by (simp add: b)
  have near: "\<bar>real_of_int (mathRound ((real c / real n) * 100)) - 100 * real c / real n\<bar>
                \<le> 1 / 2"
    using mathRound_nearest [of "(real c / real n) * 100"] by (simp add: mult.commute)
  have z: "n = 0 \<Longrightarrow> completionRate b = 0"
    using cr by simp
  have p: "n > 0 \<Longrightarrow> \<bar>real_of_int (completionRate b) - 100 * real c / real n\<bar> \<le> 1 / 2"
    using cr near by presburger
  have a: "n > 0 \<Longrightarrow> c = n \<Longrightarrow> completionRate b = 100"
    using cr mathRound_whole [of n] by simp
  from tt tc z p a show ?thesis by blast
qed

section \<open>Completion rate\<close>

text \<open>
  Claim C7. The completion rate, overall on the dashboard and in each of the 4 weekly
  buckets, is completed/total as a percentage rounded to the nearest integer: an integer
  at most one half away from the exact percentage, where for the bucket of week \<open>w\<close>
  total counts the sessions whose completedAt lies within the bounds of that week and
  completed counts the completed ones among them. It is 0 when total is 0, so nothing is
  divided by zero, and it is 100 when every session counted is completed.
\<close>

theorem completionRate_nearest_percent:
  fixes sessions :: "'a HomeTherapySession_scheme list"
  shows "(sessions = [] \<longrightarrow> dashboardCompletionRate sessions = 0)
    \<and> (sessions \<noteq> [] \<longrightarrow>
         \<bar>real_of_int (dashboardCompletionRate sessions)
            - 100 * real (length (filter completed sessions)) / real (length sessions)\<bar>
           \<le> 1 / 2)
    \<and> (sessions \<noteq> [] \<and> (\<forall>s \<in> set sessions. completed s) \<longrightarrow>
         dashboardCompletionRate sessions = 100)
    \<and> length (generateWeeklySummary cal sessions today rnd k) = 4
    \<and> (\<forall>w<4.
         (let b = generateWeeklySummary cal sessions today rnd k ! (3 - w);
              n = length (filter (\<lambda>s. \<exists>t. completedAt s = Some (DateObject t)
                    \<and> cal today (- (int w * 7) - 7) \<le> t
                    \<and> t \<le> cal (cal today (- (int w * 7) - 7)) 6) sessions);
              c = length (filter (\<lambda>s. completed s \<and> (\<exists>t. completedAt s = Some (DateObject t)
                    \<and> cal today (- (int w * 7) - 7) \<le> t
                    \<and> t \<le> cal (cal today (- (int w * 7) - 7)) 6)) sessions)
          in totalTasks b = n \<and> tasksCompleted b = c
             \<and> (n = 0 \<longrightarrow> completionRate b = 0)
             \<and> (n > 0 \<longrightarrow> \<bar>real_of_int (completionRate b) - 100 * real c / real n\<bar> \<le> 1 / 2)
             \<and> (n > 0 \<and> c = n \<longrightarrow> completionRate b = 100)))"
  (is "?A \<and> ?B \<and> ?C \<and> ?L \<and> ?D")
proof -
  have empty: ?A
    by (simp add: dashboardCompletionRate_def)
  have rate: "dashboardCompletionRate sessions
                = mathRound ((real (length (filter completed sessions))
                               / real (length sessions)) * 100)"
    if "sessions \<noteq> []"
    using that by (simp add: dashboardCompletionRate_def Let_def)
  have near: "\<bar>real_of_int (dashboardCompletionRate sessions)
                - 100 * real (length (filter completed sessions)) / real (length sessions)\<bar>
               \<le> 1 / 2"
    if "sessions \<noteq> []"
    using that rate
      mathRound_nearest [of "(real (length (filter completed sessions))
                               / real (length sessions)) * 100"]
    by (simp add: mult.commute)
  have mid: ?B using near by blast
  have all: ?C
  proof (intro impI, elim conjE)
    assume ne: "sessions \<noteq> []" and c: "\<forall>s \<in> set sessions. completed s"
    from c have "filter completed sessions = sessions" by simp
    with ne rate mathRound_whole [of "length sessions"]
    show "dashboardCompletionRate sessions = 100" by simp
  qed
  have len: ?L
    by (simp add: generateWeeklySummary_buckets)
  have buckets: ?D
  proof (intro allI impI)
    fix w :: nat assume "w < 4"
    then have nth: "generateWeeklySummary cal sessions today rnd k ! (3 - w)
                = weekBucket cal sessions today w (rnd (k + w))"
      by (rule generateWeeklySummary_nth)
    show "let b = generateWeeklySummary cal sessions today rnd k ! (3 - w);
              n = length (filter (\<lambda>s. \<exists>t. completedAt s = Some (DateObject t)
                    \<and> cal today (- (int w * 7) - 7) \<le> t
                    \<and> t \<le> cal (cal today (- (int w * 7) - 7)) 6) sessions);
              c = length (filter (\<lambda>s. completed s \<and> (\<exists>t. completedAt s = Some (DateObject t)
                    \<and> cal today (- (int w * 7) - 7) \<le> t
                    \<and> t \<le> cal (cal today (- (int w * 7) - 7)) 6)) sessions)
          in totalTasks b = n \<and> tasksCompleted b = c
             \<and> (n = 0 \<longrightarrow> completionRate b = 0)
             \<and> (n > 0 \<longrightarrow> \<bar>real_of_int (completionRate b) - 100 * real c / real n\<bar> \<le> 1 / 2)
             \<and> (n > 0 \<and> c = n \<longrightarrow> completionRate b = 100)"
      unfolding Let_def
      by (rule weekBucket_rate_of_sessions [OF nth refl refl])
  qed
  from empty mid all len buckets show ?thesis by (intro conjI)
qed

theorem completionRate_nearest_percent_witness:
  "threeSessions \<noteq> [] \<and> dashboardCompletionRate threeSessions = 67
   \<and> \<bar>real_of_int (dashboardCompletionRate threeSessions) - 100 * 2 / 3\<bar> \<le> 1 / 2
   \<and> dashboardCompletionRate [exampleSession True None] = 100
   \<and> dashboardCompletionRate ([] :: HomeTherapySession list) = 0
   \<and> map totalTasks
        (generateWeeklySummary fixedOffsetCalendar threeSessions todaySample shrinkingDraws 0)
       = [0, 0, 0, 3]
   \<and> map tasksCompleted
        (generateWeeklySummary fixedOffsetCalendar threeSessions todaySample shrinkingDraws 0)
       = [0, 0, 0, 2]
   \<and> map completionRate
        (generateWeeklySummary fixedOffsetCalendar threeSessions todaySample shrinkingDraws 0)
       = [0, 0, 0, 67]
   \<and> map completionRate
        (generateWeeklySummary fixedOffsetCalendar
           [exampleSession True (Some (DateObject (todaySample - 10 * msPerDay)))]
           todaySample shrinkingDraws 0)
       = [0, 0, 100, 0]"
  using completionRate_nearest_percent
      [where sessions = threeSessions and cal = fixedOffsetCalendar and today = todaySample
         and rnd = shrinkingDraws and k = 0]
    completionRate_nearest_percent
      [where sessions = "[exampleSession True None]" and cal = fixedOffsetCalendar
         and today = todaySample and rnd = shrinkingDraws and k = 0]
    completionRate_nearest_percent
      [where sessions = "[] :: HomeTherapySession list" and cal = fixedOffsetCalendar
         and today = todaySample and rnd = shrinkingDraws and k = 0]
    completionRate_nearest_percent
      [where sessions = "[exampleSession True (Some (DateObject (todaySample - 10 * msPerDay)))]"
         and cal = fixedOffsetCalendar and today = todaySample and rnd = shrinkingDraws
         and k = 0]
  by (simp add: threeSessions_def dashboardCompletionRate_def mathRound_def
      generateWeeklySummary_buckets weekBucket_def Let_def inWeek_def newDate_def
      fixedOffsetCalendar_def todaySample_def msPerDay_def)

lemma generateWeeklySummary_engagement:
  "map engagementRate (generateWeeklySummary cal sessions today rnd k) =
     [mathRound (rnd (k + 3) * 30 + 70), mathRound (rnd (k + 2) * 30 + 70),
      mathRound (rnd (k + 1) * 30 + 70), mathRound (rnd k * 30 + 70)]"
  by (simp add: generateWeeklySummary_buckets weekBucket_fields)

section \<open>Engagement rate\<close>

text \<open>
  Claim C10. Each of the 4 weekly buckets carries an engagementRate that is an integer in
  [70, 100] and does not depend on the sessions: two runs on different session sequences
  (and even different days and calendars) with the same random draws give the same
  engagementRate values.
\<close>

theorem engagementRate_ignores_sessions:
  fixes sessions :: "'a HomeTherapySession_scheme list"
    and sessions' :: "'b HomeTherapySession_scheme list"
  assumes "validRng rnd"
  shows "length (generateWeeklySummary cal sessions today rnd k) = 4
    \<and> (\<forall>b \<in> set (generateWeeklySummary cal sessions today rnd k).
          70 \<le> engagementRate b \<and> engagementRate b \<le> 100)
    \<and> map engagementRate (generateWeeklySummary cal sessions today rnd k)
        = map engagementRate (generateWeeklySummary cal' sessions' today' rnd k)"
proof (intro conjI ballI)
  show "length (generateWeeklySummary cal sessions today rnd k) = 4"
    by (simp add: generateWeeklySummary_buckets)
next
  fix b assume "b \<in> set (generateWeeklySummary cal sessions today rnd k)"
  then obtain w where b: "b = weekBucket cal sessions today w (rnd (k + w))"
    using generateWeeklySummary_member by blast
  from assms have "0 \<le> rnd (k + w)" "rnd (k + w) < 1"
    by (simp_all add: validRng_def)
  then have "70 \<le> mathRound (rnd (k + w) * 30 + 70) \<and> mathRound (rnd (k + w) * 30 + 70) \<le> 100"
    by (rule mathRound_engagement)
  then show "70 \<le> engagementRate b" and "engagementRate b \<le> 100"
    by (simp_all add: b weekBucket_fields)
next
  show "map engagementRate (generateWeeklySummary cal sessions today rnd k)
        = map engagementRate (generateWeeklySummary cal' sessions' today' rnd k)"
    by (simp only: generateWeeklySummary_engagement)
qed

theorem engagementRate_ignores_sessions_witness:
  "validRng shrinkingDraws
   \<and> map engagementRate
        (generateWeeklySummary fixedOffsetCalendar threeSessions 0 shrinkingDraws 0)
       = [76, 78, 80, 85]
   \<and> map engagementRate
        (generateWeeklySummary fixedOffsetCalendar [recentSession] todaySample shrinkingDraws 0)
       = [76, 78, 80, 85]"
  using engagementRate_ignores_sessions
      [OF validRng_shrinkingDraws, where sessions = threeSessions and cal = fixedOffsetCalendar
         and today = 0 and k = 0 and sessions' = "[recentSession]"
         and cal' = fixedOffsetCalendar and today' = todaySample]
    validRng_shrinkingDraws
  by (simp add: generateWeeklySummary_engagement shrinkingDraws_def mathRound_def)

section \<open>Weekly windows\<close>

text \<open>
  Claim C6, evaluated on the code in a zone of fixed offset, with today at 2592000000 ms.
  The four windows computed are [today - 28 d, today - 22 d], [today - 21 d, today - 15 d],
  [today - 14 d, today - 8 d] and [today - 7 d, today - 1 d], at the time of day of the
  call: each spans 6 days, a day lies between two windows, and the last one ends a day
  before today. A session completed one hour ago, a session completed seven and a half
  days ago and a stored session completed three days ago (a Timestamp) all lie within the
  28 days that end today, and no bucket counts any of them; a generated session of three
  days ago is counted in the last bucket.
\<close>

theorem weekly_windows_miss_sessions:
  "map weekStart
     (generateWeeklySummary fixedOffsetCalendar [recentSession, gapSession, storedSession]
        todaySample (fixedDraws 0) 0)
     = [todaySample - 28 * msPerDay, todaySample - 21 * msPerDay,
        todaySample - 14 * msPerDay, todaySample - 7 * msPerDay]
   \<and> map weekEnd
       (generateWeeklySummary fixedOffsetCalendar [recentSession, gapSession, storedSession]
          todaySample (fixedDraws 0) 0)
     = [todaySample - 22 * msPerDay, todaySample - 15 * msPerDay,
        todaySample - 8 * msPerDay, todaySample - 1 * msPerDay]
   \<and> completedAt recentSession = Some (DateObject (todaySample - 3600000))
   \<and> todaySample - 7 * msPerDay \<le> todaySample - 3600000
   \<and> todaySample - 3600000 \<le> todaySample
   \<and> completedAt gapSession = Some (DateObject (todaySample - 648000000))
   \<and> todaySample - 14 * msPerDay \<le> todaySample - 648000000
   \<and> todaySample - 648000000 \<le> todaySample - 7 * msPerDay
   \<and> completedAt storedSession = Some (FirestoreTimestamp (todaySample - 3 * msPerDay))
   \<and> todaySample - 7 * msPerDay \<le> todaySample - 3 * msPerDay
   \<and> todaySample - 3 * msPerDay \<le> todaySample - 1 * msPerDay
   \<and> map totalTasks
       (generateWeeklySummary fixedOffsetCalendar [recentSession, gapSession, storedSession]
          todaySample (fixedDraws 0) 0)
     = [0, 0, 0, 0]
   \<and> map totalTasks
       (generateWeeklySummary fixedOffsetCalendar
          [exampleSession True (Some (DateObject (todaySample - 3 * msPerDay)))]
          todaySample (fixedDraws 0) 0)
     = [0, 0, 0, 1]"
  by (simp add: recentSession_def gapSession_def storedSession_def todaySample_def msPerDay_def
      generateWeeklySummary_buckets weekBucket_def Let_def inWeek_def newDate_def
      fixedOffsetCalendar_def)

section \<open>Synthetic sessions\<close>

lemma sampleLoop_step:
  "i < days \<Longrightarrow> sampleLoop cal cid today days rnd i k sessions =
     sampleLoop cal cid today days rnd (i + 1) (snd (sampleSession cal cid today days i rnd k))
       (sessions @ [fst (sampleSession cal cid today days i rnd k)])"
  by (subst sampleLoop.simps) simp

lemma sampleLoop_stop:
  "\<not> i < days \<Longrightarrow> sampleLoop cal cid today days rnd i k sessions = sessions"
  by (subst sampleLoop.simps) simp

lemma sampleSession_builtOn:
  "builtOn cal today days rnd i (fst (sampleSession cal cid today days i rnd k))"
  by (auto simp: builtOn_def sampleSession_def Let_def split: prod.splits)

lemma sampleLoop_shape:
  "i \<le> days \<Longrightarrow>
   \<exists>ys. sampleLoop cal cid today days rnd i k sessions = sessions @ ys
        \<and> length ys = days - i
        \<and> (\<forall>m < days - i. builtOn cal today days rnd (i + m) (ys ! m))"
proof (induction cal cid today days rnd i k sessions rule: sampleLoop.induct)
  case (1 cal cid today days rnd i k sessions)
  show ?case
  proof (cases "i < days")
    case False
    then show ?thesis using "1.prems" by (simp add: sampleLoop_stop)
  next
    case True
    let ?s = "fst (sampleSession cal cid today days i rnd k)"
    let ?k = "snd (sampleSession cal cid today days i rnd k)"
    from True have "i + 1 \<le> days" by simp
    from "1.IH" [OF True this]
    obtain ys where
      ys: "sampleLoop cal cid today days rnd (i + 1) ?k (sessions @ [?s]) = (sessions @ [?s]) @ ys"
      and len: "length ys = days - (i + 1)"
      and all: "\<forall>m < days - (i + 1). builtOn cal today days rnd (i + 1 + m) (ys ! m)"
      by blast
    have eq: "sampleLoop cal cid today days rnd i k sessions = sessions @ (?s # ys)"
      using ys True by (simp add: sampleLoop_step)
    have len': "length (?s # ys) = days - i" using len True by simp
    have all': "\<forall>m < days - i. builtOn cal today days rnd (i + m) ((?s # ys) ! m)"
    proof (intro allI impI)
      fix m assume m: "m < days - i"
      show "builtOn cal today days rnd (i + m) ((?s # ys) ! m)"
      proof (cases m)
        case 0
        then show ?thesis by (simp add: sampleSession_builtOn)
      next
        case (Suc m')
        with m have "m' < days - (i + 1)" by simp
        with all have "builtOn cal today days rnd (i + 1 + m') (ys ! m')" by blast
        with Suc show ?thesis by simp
      qed
    qed
    from eq len' all' show ?thesis by blast
  qed
qed

lemma generateSampleProgressData_shape:
  "length (generateSampleProgressData cal cid days today rnd k) = days
   \<and> (\<forall>p < days. builtOn cal today days rnd (days - 1 - p)
                    (generateSampleProgressData cal cid days today rnd k ! p))"
proof -
  obtain ys where ys: "sampleLoop cal cid today days rnd 0 k [] = ys"
      and len: "length ys = days"
      and all: "\<forall>m < days. builtOn cal today days rnd m (ys ! m)"
    using sampleLoop_shape [of 0 days cal cid today rnd k "[]"] by auto
  have "generateSampleProgressData cal cid days today rnd k ! p = ys ! (days - 1 - p)"
    if "p < days" for p
    using that len by (simp add: generateSampleProgressData_def ys rev_nth)
  moreover have "days - 1 - p < days" if "p < days" for p using that by simp
  ultimately show ?thesis
    using len all by (simp add: generateSampleProgressData_def ys)
qed

text \<open>
  Claim C3, evaluated on the code for N = 14 in a zone of fixed offset, with every draw
  equal to 0.6. The generator returns 14 records, oldest first. The records of positions
  0 to 9 are completed and those of positions 10 to 13, nearest today, are not: the
  completion probability is \<open>0.5 + 0.4 i / 14\<close> for the record of \<open>i\<close> days ago, so it
  falls towards today. The expected completion rate over positions 10 to 13 is 19/35,
  lower than 29/35 over positions 0 to 3.
\<close>

theorem sample_progress_trend_reversed:
  "length (generateSampleProgressData fixedOffsetCalendar ''c'' 14 todaySample
             (fixedDraws (3 / 5)) 0) = 14
   \<and> map completedAt (generateSampleProgressData fixedOffsetCalendar ''c'' 14 todaySample
                         (fixedDraws (3 / 5)) 0)
       = [Some (DateObject (todaySample - 13 * msPerDay)),
          Some (DateObject (todaySample - 12 * msPerDay)),
          Some (DateObject (todaySample - 11 * msPerDay)),
          Some (DateObject (todaySample - 10 * msPerDay)),
          Some (DateObject (todaySample - 9 * msPerDay)),
          Some (DateObject (todaySample - 8 * msPerDay)),
          Some (DateObject (todaySample - 7 * msPerDay)),
          Some (DateObject (todaySample - 6 * msPerDay)),
          Some (DateObject (todaySample - 5 * msPerDay)),
          Some (DateObject (todaySample - 4 * msPerDay)),
          Some (DateObject (todaySample - 3 * msPerDay)),
          Some (DateObject (todaySample - 2 * msPerDay)),
          Some (DateObject (todaySample - 1 * msPerDay)),
          Some (DateObject todaySample)]
   \<and> map completed (generateSampleProgressData fixedOffsetCalendar ''c'' 14 todaySample
                       (fixedDraws (3 / 5)) 0)
       = [True, True, True, True, True, True, True, True, True, True,
          False, False, False, False]
   \<and> expectedCompletionRate 14 [10, 11, 12, 13] = 19 / 35
   \<and> expectedCompletionRate 14 [0, 1, 2, 3] = 29 / 35
   \<and> expectedCompletionRate 14 [10, 11, 12, 13] < expectedCompletionRate 14 [0, 1, 2, 3]"
proof -
  have len: "length (generateSampleProgressData fixedOffsetCalendar ''c'' 14 todaySample
             (fixedDraws (3 / 5)) 0) = 14"
    using generateSampleProgressData_shape by blast
  have dates: "map completedAt (generateSampleProgressData fixedOffsetCalendar ''c'' 14
                                  todaySample (fixedDraws (3 / 5)) 0)
       = [Some (DateObject (todaySample - 13 * msPerDay)),
          Some (DateObject (todaySample - 12 * msPerDay)),
          Some (DateObject (todaySample - 11 * msPerDay)),
          Some (DateObject (todaySample - 10 * msPerDay)),
          Some (DateObject (todaySample - 9 * msPerDay)),
          Some (DateObject (todaySample - 8 * msPerDay)),
          Some (DateObject (todaySample - 7 * msPerDay)),
          Some (DateObject (todaySample - 6 * msPerDay)),
          Some (DateObject (todaySample - 5 * msPerDay)),
          Some (DateObject (todaySample - 4 * msPerDay)),
          Some (DateObject (todaySample - 3 * msPerDay)),
          Some (DateObject (todaySample - 2 * msPerDay)),
          Some (DateObject (todaySample - 1 * msPerDay)),
          Some (DateObject todaySample)]"
    by (simp add: generateSampleProgressData_def sampleLoop_step sampleLoop_stop
        sampleSession_def Let_def pickFeedback_def pickMood_def fixedDraws_def
        completionChance_def dayProgress_def split_def fixedOffsetCalendar_def)
  have flags: "map completed (generateSampleProgressData fixedOffsetCalendar ''c'' 14
                                todaySample (fixedDraws (3 / 5)) 0)
       = [True, True, True, True, True, True, True, True, True, True,
          False, False, False, False]"
    by (simp add: generateSampleProgressData_def sampleLoop_step sampleLoop_stop
        sampleSession_def Let_def pickFeedback_def pickMood_def fixedDraws_def
        completionChance_def dayProgress_def split_def)
  have late: "expectedCompletionRate 14 [10, 11, 12, 13] = 19 / 35"
    by (simp add: expectedCompletionRate_def completionChance_def dayProgress_def)
  have early: "expectedCompletionRate 14 [0, 1, 2, 3] = 29 / 35"
    by (simp add: expectedCompletionRate_def completionChance_def dayProgress_def)
  have less: "expectedCompletionRate 14 [10, 11, 12, 13] < expectedCompletionRate 14 [0, 1, 2, 3]"
    unfolding late early by simp
  from len dates flags late early less show ?thesis by (intro conjI)
qed

section \<open>The pipeline\<close>

lemma uploadFile_plans [simp]:
  "treatmentPlans (snd (uploadFile sv path f be)) = treatmentPlans be"
  by (simp add: uploadFile_def split: option.splits)

lemma uploadDocument_plans [simp]:
  "treatmentPlans (snd (uploadDocument sv prefix documentFile be)) = treatmentPlans be"
  by (simp add: uploadDocument_def split: option.splits)

lemma uploadDocument_None [simp]:
  "uploadDocument sv prefix None be = (Inr [], be)"
  by (simp add: uploadDocument_def)

lemma savePlan_fst:
  "fst (savePlan sv plan be) =
     (case firestoreWrite sv ''treatmentPlans'' of Some e \<Rightarrow> Failed e | None \<Rightarrow> Created)"
  by (simp add: savePlan_def split: option.splits)

lemma savePlan_snd:
  "treatmentPlans (snd (savePlan sv plan be)) =
     (case firestoreWrite sv ''treatmentPlans'' of
        Some e \<Rightarrow> treatmentPlans be
      | None \<Rightarrow> treatmentPlans be @ [plan])"
  by (simp add: savePlan_def split: option.splits)

lemma enrichTasks_Inr:
  "enrichTasks sv language now index tasks = Inr ts \<Longrightarrow>
     map weeklyGoalIndex ts = map weeklyGoalIndex tasks
     \<and> map description ts = map description tasks
     \<and> (\<forall>t \<in> set ts. \<exists>v. demoVideoSuggestion t = Some v)
     \<and> (\<forall>t \<in> set tasks. \<exists>v. generateDemoVideoSuggestion sv (description t) language = Inr v)"
proof (induction tasks arbitrary: index ts)
  case Nil
  then show ?case by simp
next
  case (Cons task rest)
  then show ?case
    by (fastforce split: sum.splits)
qed

lemma enrichTasks_Inl:
  "t \<in> set tasks \<Longrightarrow> generateDemoVideoSuggestion sv (description t) language = Inl e \<Longrightarrow>
     \<exists>e'. enrichTasks sv language now index tasks = Inl e'"
proof (induction tasks arbitrary: index)
  case Nil
  then show ?case by simp
next
  case (Cons task rest)
  show ?case
  proof (cases "generateDemoVideoSuggestion sv (description task) language")
    case (Inl e1)
    then show ?thesis by simp
  next
    case (Inr v)
    with Cons.prems have "t \<in> set rest" by auto
    from Cons.IH [OF this Cons.prems(2)] obtain e' where
      "enrichTasks sv language now (index + 1) rest = Inl e'" by blast
    with Inr show ?thesis by simp
  qed
qed

lemma form_failed:
  "fst (formHandleSubmit sv currentUser cid language voiceFile documentFile now be) \<noteq> Created
   \<Longrightarrow> treatmentPlans (snd (formHandleSubmit sv currentUser cid language voiceFile documentFile now be))
       = treatmentPlans be"
  unfolding formHandleSubmit_def
  by (simp add: split_def savePlan_fst savePlan_snd split: option.splits sum.splits)

lemma form_created:
  assumes "fst (formHandleSubmit sv currentUser cid language voiceFile documentFile now be) = Created"
  shows "\<exists>uid vf transcript sm tasks ts voiceUrl docUrl.
             currentUser = Some uid \<and> voiceFile = Some vf
             \<and> transcribeAudio sv vf = Inr transcript
             \<and> summarizeTreatmentPlan sv transcript language = Inr (Some sm)
             \<and> dailyTasks sm = Some tasks
             \<and> enrichTasks sv language now 0 tasks = Inr ts
             \<and> (documentFile = None \<longrightarrow> docUrl = [])
             \<and> treatmentPlans (snd (formHandleSubmit sv currentUser cid language voiceFile documentFile now be))
                = treatmentPlans be @
                 [\<lparr> childId_plan = cid, therapistId_plan = uid, voiceRecordingUrl = voiceUrl,
                    transcription = transcript, documentUrl = docUrl, summary_plan = summary sm,
                    therapyType_plan = None, weeklyGoals_plan = weeklyGoals sm,
                    dailyTasks_plan = ts, createdAt_plan = int now, updatedAt = int now \<rparr>]"
  using assms unfolding formHandleSubmit_def
  by (auto simp: split_def savePlan_fst savePlan_snd split: option.splits sum.splits)

lemma uploadFile_fst:
  "fst (uploadFile sv path f be) =
     (case uploadBytes sv path f of Some e \<Rightarrow> Inl e | None \<Rightarrow> getDownloadURL sv path)"
  by (simp add: uploadFile_def split: option.splits)

lemma recorder_failed:
  "fst (recorderHandleSubmit sv currentUser cid language mode uploadedFile audioBlob documentFile now be)
     \<noteq> Created
   \<Longrightarrow> treatmentPlans (snd (recorderHandleSubmit sv currentUser cid language mode uploadedFile
                               audioBlob documentFile now be))
       = treatmentPlans be"
proof -
  define af where "af = (if mode = upload_mode then uploadedFile
            else map_option (\<lambda>blob. \<lparr> fileName = ''recording.webm'', fileData = blob \<rparr>)
                   audioBlob)"
  show "fst (recorderHandleSubmit sv currentUser cid language mode uploadedFile audioBlob documentFile now be)
     \<noteq> Created
   \<Longrightarrow> treatmentPlans (snd (recorderHandleSubmit sv currentUser cid language mode uploadedFile
                               audioBlob documentFile now be))
       = treatmentPlans be"
    unfolding recorderHandleSubmit_def af_def [symmetric]
    by (simp add: split_def savePlan_fst savePlan_snd split: option.splits sum.splits)
qed

lemma recorder_created:
  assumes "fst (recorderHandleSubmit sv currentUser cid language mode uploadedFile audioBlob
                  documentFile now be) = Created"
  shows "\<exists>uid audioFile transcript sm tasks ts voiceUrl docUrl.
             currentUser = Some uid
             \<and> (if mode = upload_mode then uploadedFile
                  else map_option (\<lambda>blob. \<lparr> fileName = ''recording.webm'', fileData = blob \<rparr>)
                         audioBlob) = Some audioFile
             \<and> transcribeAudio sv audioFile = Inr transcript
             \<and> summarizeTreatmentPlan sv transcript language = Inr (Some sm)
             \<and> dailyTasks sm = Some tasks
             \<and> enrichTasks sv ''en'' now 0 tasks = Inr ts
             \<and> (documentFile = None \<longrightarrow> docUrl = [])
             \<and> treatmentPlans (snd (recorderHandleSubmit sv currentUser cid language mode
                                      uploadedFile audioBlob documentFile now be))
                = treatmentPlans be @
                 [\<lparr> childId_plan = cid, therapistId_plan = uid, voiceRecordingUrl = voiceUrl,
                    transcription = transcript, documentUrl = docUrl, summary_plan = summary sm,
                    therapyType_plan = Some (orDefault (therapyType sm) behavior),
                    weeklyGoals_plan = weeklyGoals sm,
                    dailyTasks_plan = ts, createdAt_plan = int now, updatedAt = int now \<rparr>]"
proof -
  define af where "af = (if mode = upload_mode then uploadedFile
            else map_option (\<lambda>blob. \<lparr> fileName = ''recording.webm'', fileData = blob \<rparr>)
                   audioBlob)"
  show ?thesis
  using assms unfolding recorderHandleSubmit_def af_def [symmetric]
  by (auto simp: split_def savePlan_fst savePlan_snd split: option.splits sum.splits)
qed

lemma form_document_failed:
  assumes "documentFile = Some df"
    and "fst (uploadFile sv (''documents/'' @ showNat now @ ''_'' @ fileName df) df be0) = Inl e"
  shows "fst (formHandleSubmit sv currentUser cid language voiceFile documentFile now be) \<noteq> Created"
  using assms unfolding formHandleSubmit_def
  by (auto simp: split_def savePlan_fst uploadDocument_def uploadFile_fst
      split: option.splits sum.splits)

lemma recorder_document_failed:
  assumes "documentFile = Some df"
    and "fst (uploadFile sv (''documents/'' @ showNat now @ ''_'' @ cid @ ''_'' @ fileName df) df be0)
           = Inl e"
  shows "fst (recorderHandleSubmit sv currentUser cid language mode uploadedFile audioBlob
                documentFile now be) \<noteq> Created"
proof -
  define af where "af = (if mode = upload_mode then uploadedFile
            else map_option (\<lambda>blob. \<lparr> fileName = ''recording.webm'', fileData = blob \<rparr>)
                   audioBlob)"
  show ?thesis
  using assms unfolding recorderHandleSubmit_def af_def [symmetric]
  by (auto simp: split_def savePlan_fst uploadDocument_def uploadFile_fst
      split: option.splits sum.splits)
qed

lemma form_created_document:
  assumes "fst (formHandleSubmit sv currentUser cid language voiceFile documentFile now be) = Created"
    and "documentFile = Some df"
  shows "\<exists>plan. treatmentPlans (snd (formHandleSubmit sv currentUser cid language voiceFile
                                   documentFile now be))
                  = treatmentPlans be @ [plan]
               \<and> getDownloadURL sv (''documents/'' @ showNat now @ ''_'' @ fileName df)
                  = Inr (documentUrl plan)"
  using assms unfolding formHandleSubmit_def
  by (auto simp: split_def savePlan_fst savePlan_snd uploadDocument_def uploadFile_fst
      split: option.splits sum.splits)

lemma recorder_created_document:
  assumes "fst (recorderHandleSubmit sv currentUser cid language mode uploadedFile audioBlob
                  documentFile now be) = Created"
    and "documentFile = Some df"
  shows "\<exists>plan. treatmentPlans (snd (recorderHandleSubmit sv currentUser cid language mode
                                   uploadedFile audioBlob documentFile now be))
                  = treatmentPlans be @ [plan]
               \<and> getDownloadURL sv
                    (''documents/'' @ showNat now @ ''_'' @ cid @ ''_'' @ fileName df)
                  = Inr (documentUrl plan)"
proof -
  define af where "af = (if mode = upload_mode then uploadedFile
            else map_option (\<lambda>blob. \<lparr> fileName = ''recording.webm'', fileData = blob \<rparr>)
                   audioBlob)"
  show ?thesis
    using assms unfolding recorderHandleSubmit_def af_def [symmetric]
    by (auto simp: split_def savePlan_fst savePlan_snd uploadDocument_def uploadFile_fst
        split: option.splits sum.splits)
qed


section \<open>Claims about the pipeline\<close>

lemmas run_simps = formHandleSubmit_def recorderHandleSubmit_def uploadFile_def uploadDocument_def
  savePlan_def transcribeAudio_def summarizeTreatmentPlan_def generateDemoVideoSuggestion_def
  orDefault_def testServices_def voiceExample_def documentExample_def taskExample_def
  summaryExample_def emptyBackend_def showNat.simps






text \<open>
  Claim C2 as stated fails: of two tasks, the suggestion request of the second fails; the
  submission fails and no plan is saved, although the first task's request succeeds.
\<close>

theorem suggestion_failure_counterexample:
  "generateDemoVideoSuggestion hopFailsServices ''stand on one foot'' ''en''
     = Inr ''stand on one foot''
   \<and> generateDemoVideoSuggestion hopFailsServices ''hop'' ''en'' = Inl OpenAIFailure
   \<and> formHandleSubmit hopFailsServices (Some ''therapist1'') ''child1'' ''en''
        (Some voiceExample) None 5 emptyBackend
     = (Failed OpenAIFailure,
        \<lparr> storageObjects = [(''voice-recordings/5_session.webm'', voiceExample)],
          treatmentPlans = [] \<rparr>)"
  by (simp add: run_simps hopFailsServices_def)

text \<open>
  Claim C2, as amended. When the demo-video-suggestion request of one task fails, the
  whole submission is aborted and the plan collection is unchanged; a plan is saved only
  when every request succeeded, and then every saved task carries a suggestion.
\<close>

theorem suggestion_failure_aborts_submission:
  "(voiceFile = Some vf
     \<and> transcribeAudio sv vf = Inr transcript
     \<and> summarizeTreatmentPlan sv transcript language = Inr (Some sm)
     \<and> dailyTasks sm = Some tasks
     \<and> t \<in> set tasks
     \<and> generateDemoVideoSuggestion sv (description t) language = Inl e
     \<longrightarrow> fst (formHandleSubmit sv currentUser cid language voiceFile documentFile now be)
           \<noteq> Created
         \<and> treatmentPlans (snd (formHandleSubmit sv currentUser cid language voiceFile
                                   documentFile now be))
             = treatmentPlans be)
   \<and> (fst (formHandleSubmit sv currentUser cid language voiceFile documentFile now be) = Created
        \<longrightarrow> (\<exists>plan. treatmentPlans (snd (formHandleSubmit sv currentUser cid language voiceFile
                                   documentFile now be))
                      = treatmentPlans be @ [plan]
                    \<and> (\<forall>task \<in> set (dailyTasks_plan plan).
                          \<exists>v. demoVideoSuggestion task = Some v)))"
proof (intro conjI impI)
  assume a: "voiceFile = Some vf
     \<and> transcribeAudio sv vf = Inr transcript
     \<and> summarizeTreatmentPlan sv transcript language = Inr (Some sm)
     \<and> dailyTasks sm = Some tasks
     \<and> t \<in> set tasks
     \<and> generateDemoVideoSuggestion sv (description t) language = Inl e"
  show nc: "fst (formHandleSubmit sv currentUser cid language voiceFile documentFile now be)
           \<noteq> Created"
  proof
    assume "fst (formHandleSubmit sv currentUser cid language voiceFile documentFile now be)
              = Created"
    from form_created [OF this]
    obtain uid' vf' transcript' sm' tasks' ts voiceUrl docUrl where
      h0: "currentUser = Some uid'" "voiceFile = Some vf'"
        "transcribeAudio sv vf' = Inr transcript'"
        "summarizeTreatmentPlan sv transcript' language = Inr (Some sm')"
        "dailyTasks sm' = Some tasks'"
        "enrichTasks sv language now 0 tasks' = Inr ts"
      by blast
    from a h0(2) have "vf' = vf" by simp
    with a h0(3) have "transcript' = transcript" by simp
    with a h0(4) have "sm' = sm" by simp
    with a h0(5) have "tasks' = tasks" by simp
    with h0(6) have "enrichTasks sv language now 0 tasks = Inr ts" by simp
    moreover from a obtain e' where "enrichTasks sv language now 0 tasks = Inl e'"
      using enrichTasks_Inl by blast
    ultimately show False by simp
  qed
  then show "treatmentPlans (snd (formHandleSubmit sv currentUser cid language voiceFile
                                   documentFile now be))
             = treatmentPlans be"
    by (rule form_failed)
next
  assume "fst (formHandleSubmit sv currentUser cid language voiceFile documentFile now be) = Created"
  from form_created [OF this]
  obtain uid' vf' transcript' sm' tasks' ts voiceUrl docUrl where
    h0: "currentUser = Some uid'" "voiceFile = Some vf'"
      "transcribeAudio sv vf' = Inr transcript'"
      "summarizeTreatmentPlan sv transcript' language = Inr (Some sm')"
      "dailyTasks sm' = Some tasks'"
    and h: "enrichTasks sv language now 0 tasks' = Inr ts"
      "treatmentPlans (snd (formHandleSubmit sv currentUser cid language voiceFile documentFile now be))
                = treatmentPlans be @
                 [\<lparr> childId_plan = cid, therapistId_plan = uid', voiceRecordingUrl = voiceUrl,
                    transcription = transcript', documentUrl = docUrl, summary_plan = summary sm',
                    therapyType_plan = None, weeklyGoals_plan = weeklyGoals sm',
                    dailyTasks_plan = ts, createdAt_plan = int now, updatedAt = int now \<rparr>]"
    by blast
  from enrichTasks_Inr [OF h(1)] have "\<forall>task \<in> set ts. \<exists>v. demoVideoSuggestion task = Some v"
    by blast
  with h(2)
  show "\<exists>plan. treatmentPlans (snd (formHandleSubmit sv currentUser cid language voiceFile
                                   documentFile now be))
                      = treatmentPlans be @ [plan]
                    \<and> (\<forall>task \<in> set (dailyTasks_plan plan).
                          \<exists>v. demoVideoSuggestion task = Some v)"
    by (intro exI [of _ "\<lparr> childId_plan = cid, therapistId_plan = uid', voiceRecordingUrl = voiceUrl,
                    transcription = transcript', documentUrl = docUrl, summary_plan = summary sm',
                    therapyType_plan = None, weeklyGoals_plan = weeklyGoals sm',
                    dailyTasks_plan = ts, createdAt_plan = int now, updatedAt = int now \<rparr>"])
      simp
qed

theorem suggestion_failure_aborts_submission_witness:
  "transcribeAudio hopFailsServices voiceExample = Inr ''balancing on one foot''
   \<and> summarizeTreatmentPlan hopFailsServices ''balancing on one foot'' ''en''
       = Inr (Some (summaryExample [taskExample ''stand on one foot'' 0, taskExample ''hop'' 0]))
   \<and> generateDemoVideoSuggestion hopFailsServices (description (taskExample ''hop'' 0)) ''en''
       = Inl OpenAIFailure
   \<and> fst (formHandleSubmit hopFailsServices (Some ''therapist1'') ''child1'' ''en''
            (Some voiceExample) None 5 emptyBackend) \<noteq> Created
   \<and> treatmentPlans (snd (formHandleSubmit hopFailsServices (Some ''therapist1'') ''child1'' ''en''
            (Some voiceExample) None 5 emptyBackend)) = treatmentPlans emptyBackend
   \<and> fst (formHandleSubmit indexSevenServices (Some ''therapist1'') ''child1'' ''ar''
            (Some voiceExample) None 5 emptyBackend) = Created"
proof -
  have t: "transcribeAudio hopFailsServices voiceExample = Inr ''balancing on one foot''"
    by (simp add: run_simps hopFailsServices_def)
  have s: "summarizeTreatmentPlan hopFailsServices ''balancing on one foot'' ''en''
       = Inr (Some (summaryExample [taskExample ''stand on one foot'' 0, taskExample ''hop'' 0]))"
    by (simp add: summarizeTreatmentPlan_def testServices_def hopFailsServices_def)
  have d: "dailyTasks (summaryExample [taskExample ''stand on one foot'' 0, taskExample ''hop'' 0])
             = Some [taskExample ''stand on one foot'' 0, taskExample ''hop'' 0]"
    by (simp add: summaryExample_def)
  have m: "taskExample ''hop'' 0 \<in> set [taskExample ''stand on one foot'' 0, taskExample ''hop'' 0]"
    by simp
  have g: "generateDemoVideoSuggestion hopFailsServices (description (taskExample ''hop'' 0)) ''en''
       = Inl OpenAIFailure"
    by (simp add: run_simps hopFailsServices_def)
  have c: "fst (formHandleSubmit indexSevenServices (Some ''therapist1'') ''child1'' ''ar''
            (Some voiceExample) None 5 emptyBackend) = Created"
    by (simp add: run_simps indexSevenServices_def)
  from t s d m g suggestion_failure_aborts_submission
      [of "Some voiceExample" voiceExample hopFailsServices "''balancing on one foot''" "''en''"
          "summaryExample [taskExample ''stand on one foot'' 0, taskExample ''hop'' 0]"
          "[taskExample ''stand on one foot'' 0, taskExample ''hop'' 0]"
          "taskExample ''hop'' 0" OpenAIFailure "Some ''therapist1''" "''child1''" None 5
          emptyBackend]
  have "fst (formHandleSubmit hopFailsServices (Some ''therapist1'') ''child1'' ''en''
            (Some voiceExample) None 5 emptyBackend) \<noteq> Created
      \<and> treatmentPlans (snd (formHandleSubmit hopFailsServices (Some ''therapist1'') ''child1'' ''en''
            (Some voiceExample) None 5 emptyBackend)) = treatmentPlans emptyBackend"
    by blast
  with t s g c show ?thesis by blast
qed

text \<open>
  Claim C4 as stated fails: when the upload of the document fails, both components end in
  failure and save no plan.
\<close>

theorem document_failure_counterexample:
  "formHandleSubmit documentFailsServices (Some ''therapist1'') ''child1'' ''en''
     (Some voiceExample) (Some documentExample) 5 emptyBackend
   = (Failed StorageFailure,
      \<lparr> storageObjects = [(''voice-recordings/5_session.webm'', voiceExample)],
        treatmentPlans = [] \<rparr>)
   \<and> recorderHandleSubmit documentFailsServices (Some ''therapist1'') ''child1'' ''en''
       upload_mode (Some voiceExample) None (Some documentExample) 5 emptyBackend
   = (Failed StorageFailure,
      \<lparr> storageObjects = [(''voice-recordings/5_child1_session.webm'', voiceExample)],
        treatmentPlans = [] \<rparr>)"
  by (simp add: run_simps documentFailsServices_def)

text \<open>
  Claim C4, as amended. If the upload of the optional companion document fails, the
  submission is aborted and the plan collection is unchanged. A plan that is saved when
  no document was given has an empty document URL, and a plan that is saved with a
  document carries the download URL returned for the uploaded document.
\<close>

theorem document_failure_aborts_submission:
  "(documentFile = Some df
     \<and> fst (uploadFile sv (''documents/'' @ showNat now @ ''_'' @ fileName df) df be0) = Inl e
     \<longrightarrow> fst (formHandleSubmit sv currentUser cid language voiceFile documentFile now be)
           \<noteq> Created
         \<and> treatmentPlans (snd (formHandleSubmit sv currentUser cid language voiceFile
                                   documentFile now be))
             = treatmentPlans be)
   \<and> (documentFile = Some df
     \<and> fst (uploadFile sv (''documents/'' @ showNat now @ ''_'' @ cid @ ''_'' @ fileName df) df be0)
         = Inl e
     \<longrightarrow> fst (recorderHandleSubmit sv currentUser cid language mode uploadedFile audioBlob
                documentFile now be) \<noteq> Created
         \<and> treatmentPlans (snd (recorderHandleSubmit sv currentUser cid language mode uploadedFile
                                   audioBlob documentFile now be))
             = treatmentPlans be)
   \<and> (documentFile = None
     \<and> fst (formHandleSubmit sv currentUser cid language voiceFile documentFile now be) = Created
     \<longrightarrow> (\<exists>plan. treatmentPlans (snd (formHandleSubmit sv currentUser cid language voiceFile
                                   documentFile now be))
                    = treatmentPlans be @ [plan]
                 \<and> documentUrl plan = []))
   \<and> (documentFile = None
     \<and> fst (recorderHandleSubmit sv currentUser cid language mode uploadedFile audioBlob
                documentFile now be) = Created
     \<longrightarrow> (\<exists>plan. treatmentPlans (snd (recorderHandleSubmit sv currentUser cid language mode
                                   uploadedFile audioBlob documentFile now be))
                    = treatmentPlans be @ [plan]
                 \<and> documentUrl plan = []))
   \<and> (documentFile = Some df
     \<and> fst (formHandleSubmit sv currentUser cid language voiceFile documentFile now be) = Created
     \<longrightarrow> (\<exists>plan. treatmentPlans (snd (formHandleSubmit sv currentUser cid language voiceFile
                                   documentFile now be))
                    = treatmentPlans be @ [plan]
                 \<and> getDownloadURL sv (''documents/'' @ showNat now @ ''_'' @ fileName df)
                    = Inr (documentUrl plan)))
   \<and> (documentFile = Some df
     \<and> fst (recorderHandleSubmit sv currentUser cid language mode uploadedFile audioBlob
                documentFile now be) = Created
     \<longrightarrow> (\<exists>plan. treatmentPlans (snd (recorderHandleSubmit sv currentUser cid language mode
                                   uploadedFile audioBlob documentFile now be))
                    = treatmentPlans be @ [plan]
                 \<and> getDownloadURL sv
                      (''documents/'' @ showNat now @ ''_'' @ cid @ ''_'' @ fileName df)
                    = Inr (documentUrl plan)))"
proof (intro conjI impI)
  assume a: "documentFile = Some df
     \<and> fst (uploadFile sv (''documents/'' @ showNat now @ ''_'' @ fileName df) df be0) = Inl e"
  then show nc: "fst (formHandleSubmit sv currentUser cid language voiceFile documentFile now be)
           \<noteq> Created"
    using form_document_failed by blast
  then show "treatmentPlans (snd (formHandleSubmit sv currentUser cid language voiceFile
                                   documentFile now be))
             = treatmentPlans be"
    by (rule form_failed)
next
  assume a: "documentFile = Some df
     \<and> fst (uploadFile sv (''documents/'' @ showNat now @ ''_'' @ cid @ ''_'' @ fileName df) df be0)
         = Inl e"
  then show nc: "fst (recorderHandleSubmit sv currentUser cid language mode uploadedFile audioBlob
                documentFile now be) \<noteq> Created"
    using recorder_document_failed by blast
  then show "treatmentPlans (snd (recorderHandleSubmit sv currentUser cid language mode uploadedFile
                                   audioBlob documentFile now be))
             = treatmentPlans be"
    by (rule recorder_failed)
next
  assume a: "documentFile = None
     \<and> fst (formHandleSubmit sv currentUser cid language voiceFile documentFile now be) = Created"
  then have "fst (formHandleSubmit sv currentUser cid language voiceFile documentFile now be) = Created"
    by blast
  from form_created [OF this]
  obtain uid vf transcript sm tasks ts voiceUrl docUrl where
    h: "currentUser = Some uid" "voiceFile = Some vf"
      "transcribeAudio sv vf = Inr transcript"
      "summarizeTreatmentPlan sv transcript language = Inr (Some sm)"
      "dailyTasks sm = Some tasks"
      "enrichTasks sv language now 0 tasks = Inr ts"
      "documentFile = None \<longrightarrow> docUrl = []"
      "treatmentPlans (snd (formHandleSubmit sv currentUser cid language voiceFile documentFile now be))
                = treatmentPlans be @
                 [\<lparr> childId_plan = cid, therapistId_plan = uid, voiceRecordingUrl = voiceUrl,
                    transcription = transcript, documentUrl = docUrl, summary_plan = summary sm,
                    therapyType_plan = None, weeklyGoals_plan = weeklyGoals sm,
                    dailyTasks_plan = ts, createdAt_plan = int now, updatedAt = int now \<rparr>]"
    by blast
  from a h(7) have "docUrl = []" by blast
  with h(8)
  show "\<exists>plan. treatmentPlans (snd (formHandleSubmit sv currentUser cid language voiceFile
                                   documentFile now be))
                    = treatmentPlans be @ [plan]
                 \<and> documentUrl plan = []"
    by (intro exI [of _ "\<lparr> childId_plan = cid, therapistId_plan = uid, voiceRecordingUrl = voiceUrl,
                    transcription = transcript, documentUrl = docUrl, summary_plan = summary sm,
                    therapyType_plan = None, weeklyGoals_plan = weeklyGoals sm,
                    dailyTasks_plan = ts, createdAt_plan = int now, updatedAt = int now \<rparr>"])
      simp
next
  assume a: "documentFile = None
     \<and> fst (recorderHandleSubmit sv currentUser cid language mode uploadedFile audioBlob
                documentFile now be) = Created"
  then have "fst (recorderHandleSubmit sv currentUser cid language mode uploadedFile audioBlob
                documentFile now be) = Created"
    by blast
  from recorder_created [OF this]
  obtain uid audioFile transcript sm tasks ts voiceUrl docUrl where
    h: "currentUser = Some uid"
      "(if mode = upload_mode then uploadedFile
        else map_option (\<lambda>blob. \<lparr> fileName = ''recording.webm'', fileData = blob \<rparr>)
               audioBlob) = Some audioFile"
      "transcribeAudio sv audioFile = Inr transcript"
      "summarizeTreatmentPlan sv transcript language = Inr (Some sm)"
      "dailyTasks sm = Some tasks"
      "enrichTasks sv ''en'' now 0 tasks = Inr ts"
      "documentFile = None \<longrightarrow> docUrl = []"
      "treatmentPlans (snd (recorderHandleSubmit sv currentUser cid language mode
                                      uploadedFile audioBlob documentFile now be))
                = treatmentPlans be @
                 [\<lparr> childId_plan = cid, therapistId_plan = uid, voiceRecordingUrl = voiceUrl,
                    transcription = transcript, documentUrl = docUrl, summary_plan = summary sm,
                    therapyType_plan = Some (orDefault (therapyType sm) behavior),
                    weeklyGoals_plan = weeklyGoals sm,
                    dailyTasks_plan = ts, createdAt_plan = int now, updatedAt = int now \<rparr>]"
    by blast
  from a h(7) have "docUrl = []" by blast
  with h(8)
  show "\<exists>plan. treatmentPlans (snd (recorderHandleSubmit sv currentUser cid language mode
                                   uploadedFile audioBlob documentFile now be))
                    = treatmentPlans be @ [plan]
                 \<and> documentUrl plan = []"
    by (intro exI [of _ "\<lparr> childId_plan = cid, therapistId_plan = uid, voiceRecordingUrl = voiceUrl,
                    transcription = transcript, documentUrl = docUrl, summary_plan = summary sm,
                    therapyType_plan = Some (orDefault (therapyType sm) behavior),
                    weeklyGoals_plan = weeklyGoals sm,
                    dailyTasks_plan = ts, createdAt_plan = int now, updatedAt = int now \<rparr>"])
      simp
next
  assume a: "documentFile = Some df
     \<and> fst (formHandleSubmit sv currentUser cid language voiceFile documentFile now be) = Created"
  then show "\<exists>plan. treatmentPlans (snd (formHandleSubmit sv currentUser cid language voiceFile
                                   documentFile now be))
                    = treatmentPlans be @ [plan]
                 \<and> getDownloadURL sv (''documents/'' @ showNat now @ ''_'' @ fileName df)
                    = Inr (documentUrl plan)"
    using form_created_document [of sv currentUser cid language voiceFile documentFile now be df]
    by blast
next
  assume a: "documentFile = Some df
     \<and> fst (recorderHandleSubmit sv currentUser cid language mode uploadedFile audioBlob
                documentFile now be) = Created"
  then show "\<exists>plan. treatmentPlans (snd (recorderHandleSubmit sv currentUser cid language mode
                                   uploadedFile audioBlob documentFile now be))
                    = treatmentPlans be @ [plan]
                 \<and> getDownloadURL sv
                      (''documents/'' @ showNat now @ ''_'' @ cid @ ''_'' @ fileName df)
                    = Inr (documentUrl plan)"
    using recorder_created_document
      [of sv currentUser cid language mode uploadedFile audioBlob documentFile now be df]
    by blast
qed

theorem document_failure_aborts_submission_witness:
  "fst (uploadFile documentFailsServices (''documents/'' @ showNat 5 @ ''_'' @ fileName documentExample)
          documentExample emptyBackend) = Inl StorageFailure
   \<and> fst (uploadFile documentFailsServices
            (''documents/'' @ showNat 5 @ ''_'' @ ''child1'' @ ''_'' @ fileName documentExample)
            documentExample emptyBackend) = Inl StorageFailure
   \<and> fst (formHandleSubmit documentFailsServices (Some ''therapist1'') ''child1'' ''en''
            (Some voiceExample) (Some documentExample) 5 emptyBackend) \<noteq> Created
   \<and> treatmentPlans (snd (formHandleSubmit documentFailsServices (Some ''therapist1'') ''child1''
            ''en'' (Some voiceExample) (Some documentExample) 5 emptyBackend))
       = treatmentPlans emptyBackend
   \<and> fst (recorderHandleSubmit documentFailsServices (Some ''therapist1'') ''child1'' ''en''
            record_mode None (Some ''audio'') (Some documentExample) 5 emptyBackend) \<noteq> Created
   \<and> treatmentPlans (snd (recorderHandleSubmit documentFailsServices (Some ''therapist1'')
            ''child1'' ''en'' record_mode None (Some ''audio'') (Some documentExample) 5
            emptyBackend))
       = treatmentPlans emptyBackend
   \<and> fst (formHandleSubmit indexSevenServices (Some ''therapist1'') ''child1'' ''en''
            (Some voiceExample) None 5 emptyBackend) = Created
   \<and> map documentUrl (treatmentPlans (snd (formHandleSubmit indexSevenServices
            (Some ''therapist1'') ''child1'' ''en'' (Some voiceExample) None 5 emptyBackend)))
       = [[]]
   \<and> fst (recorderHandleSubmit indexSevenServices (Some ''therapist1'') ''child1'' ''en''
            record_mode None (Some ''audio'') None 5 emptyBackend) = Created
   \<and> map documentUrl (treatmentPlans (snd (recorderHandleSubmit indexSevenServices
            (Some ''therapist1'') ''child1'' ''en'' record_mode None (Some ''audio'') None 5
            emptyBackend)))
       = [[]]
   \<and> fst (formHandleSubmit indexSevenServices (Some ''therapist1'') ''child1'' ''en''
            (Some voiceExample) (Some documentExample) 5 emptyBackend) = Created
   \<and> map documentUrl (treatmentPlans (snd (formHandleSubmit indexSevenServices
            (Some ''therapist1'') ''child1'' ''en'' (Some voiceExample) (Some documentExample) 5
            emptyBackend)))
       = [''documents/5_plan.pdf'']
   \<and> fst (recorderHandleSubmit indexSevenServices (Some ''therapist1'') ''child1'' ''en''
            record_mode None (Some ''audio'') (Some documentExample) 5 emptyBackend) = Created
   \<and> map documentUrl (treatmentPlans (snd (recorderHandleSubmit indexSevenServices
            (Some ''therapist1'') ''child1'' ''en'' record_mode None (Some ''audio'')
            (Some documentExample) 5 emptyBackend)))
       = [''documents/5_child1_plan.pdf'']"
proof -
  have u1: "fst (uploadFile documentFailsServices
                  (''documents/'' @ showNat 5 @ ''_'' @ fileName documentExample)
                  documentExample emptyBackend) = Inl StorageFailure"
    by (simp add: uploadFile_def testServices_def documentFailsServices_def documentExample_def)
  have u2: "fst (uploadFile documentFailsServices
            (''documents/'' @ showNat 5 @ ''_'' @ ''child1'' @ ''_'' @ fileName documentExample)
            documentExample emptyBackend) = Inl StorageFailure"
    by (simp add: uploadFile_def testServices_def documentFailsServices_def documentExample_def)
  have n1: "fst (formHandleSubmit indexSevenServices (Some ''therapist1'') ''child1'' ''en''
            (Some voiceExample) None 5 emptyBackend) = Created"
    by (simp add: run_simps indexSevenServices_def)
  have n2: "map documentUrl (treatmentPlans (snd (formHandleSubmit indexSevenServices
            (Some ''therapist1'') ''child1'' ''en'' (Some voiceExample) None 5 emptyBackend)))
       = [[]]"
    by (simp add: run_simps indexSevenServices_def)
  have n3: "fst (recorderHandleSubmit indexSevenServices (Some ''therapist1'') ''child1'' ''en''
            record_mode None (Some ''audio'') None 5 emptyBackend) = Created"
    by (simp add: run_simps indexSevenServices_def)
  have n4: "map documentUrl (treatmentPlans (snd (recorderHandleSubmit indexSevenServices
            (Some ''therapist1'') ''child1'' ''en'' record_mode None (Some ''audio'') None 5
            emptyBackend)))
       = [[]]"
    by (simp add: run_simps indexSevenServices_def)
  have d1: "fst (formHandleSubmit indexSevenServices (Some ''therapist1'') ''child1'' ''en''
            (Some voiceExample) (Some documentExample) 5 emptyBackend) = Created"
    by (simp add: run_simps indexSevenServices_def)
  have d2: "map documentUrl (treatmentPlans (snd (formHandleSubmit indexSevenServices
            (Some ''therapist1'') ''child1'' ''en'' (Some voiceExample) (Some documentExample) 5
            emptyBackend)))
       = [''documents/5_plan.pdf'']"
    by (simp add: run_simps indexSevenServices_def)
  have d3: "fst (recorderHandleSubmit indexSevenServices (Some ''therapist1'') ''child1'' ''en''
            record_mode None (Some ''audio'') (Some documentExample) 5 emptyBackend) = Created"
    by (simp add: run_simps indexSevenServices_def)
  have d4: "map documentUrl (treatmentPlans (snd (recorderHandleSubmit indexSevenServices
            (Some ''therapist1'') ''child1'' ''en'' record_mode None (Some ''audio'')
            (Some documentExample) 5 emptyBackend)))
       = [''documents/5_child1_plan.pdf'']"
    by (simp add: run_simps indexSevenServices_def)
  note inst = document_failure_aborts_submission
      [of "Some documentExample" documentExample documentFailsServices 5 emptyBackend
          StorageFailure "Some ''therapist1''" "''child1''" "''en''" "Some voiceExample"
          emptyBackend record_mode None "Some ''audio''"]
  from u1 inst
  have f: "fst (formHandleSubmit documentFailsServices (Some ''therapist1'') ''child1'' ''en''
            (Some voiceExample) (Some documentExample) 5 emptyBackend) \<noteq> Created
   \<and> treatmentPlans (snd (formHandleSubmit documentFailsServices (Some ''therapist1'') ''child1''
            ''en'' (Some voiceExample) (Some documentExample) 5 emptyBackend))
       = treatmentPlans emptyBackend"
    by blast
  from u2 inst
  have r: "fst (recorderHandleSubmit documentFailsServices (Some ''therapist1'') ''child1'' ''en''
            record_mode None (Some ''audio'') (Some documentExample) 5 emptyBackend) \<noteq> Created
   \<and> treatmentPlans (snd (recorderHandleSubmit documentFailsServices (Some ''therapist1'')
            ''child1'' ''en'' record_mode None (Some ''audio'') (Some documentExample) 5
            emptyBackend))
       = treatmentPlans emptyBackend"
    by blast
  from u1 u2 f r n1 n2 n3 n4 d1 d2 d3 d4 show ?thesis by (intro conjI) blast+
qed

section \<open>Weekly goals in both formats\<close>

lemma normalizeWeeklyGoals_strings:
  "normalizeWeeklyGoals (map GoalString texts) = map (\<lambda>s. \<lparr> goal = s, category = None \<rparr>) texts"
  by (simp add: normalizeWeeklyGoals_def)

lemma normalizeGoal_object: "normalizeGoal (GoalObject g) = g"
  by simp

lemma normalizeWeeklyGoals_objects: "normalizeWeeklyGoals (map GoalObject goals) = goals"
  by (induction goals) (simp_all add: normalizeWeeklyGoals_def)

text \<open>
  Claim C9. Normalizing a sequence of plain strings gives the tagged objects in the same
  order, each with category null; normalizing a sequence of tagged objects returns it
  unchanged, so normalizing twice is the same as normalizing once.
\<close>

theorem normalizeWeeklyGoals_legacy_idempotent:
  "normalizeWeeklyGoals (map GoalString texts) = map (\<lambda>s. \<lparr> goal = s, category = None \<rparr>) texts
   \<and> map goal (normalizeWeeklyGoals (map GoalString texts)) = texts
   \<and> (\<forall>g \<in> set (normalizeWeeklyGoals (map GoalString texts)). category g = None)
   \<and> normalizeWeeklyGoals (map GoalObject goals) = goals
   \<and> normalizeWeeklyGoals (map GoalObject (normalizeWeeklyGoals stored))
       = normalizeWeeklyGoals stored"
proof (intro conjI)
  show "normalizeWeeklyGoals (map GoalString texts)
          = map (\<lambda>s. \<lparr> goal = s, category = None \<rparr>) texts"
    by (rule normalizeWeeklyGoals_strings)
  show "map goal (normalizeWeeklyGoals (map GoalString texts)) = texts"
    by (simp add: normalizeWeeklyGoals_strings comp_def)
  show "\<forall>g \<in> set (normalizeWeeklyGoals (map GoalString texts)). category g = None"
    by (auto simp: normalizeWeeklyGoals_strings)
  show "normalizeWeeklyGoals (map GoalObject goals) = goals"
    by (rule normalizeWeeklyGoals_objects)
  show "normalizeWeeklyGoals (map GoalObject (normalizeWeeklyGoals stored))
       = normalizeWeeklyGoals stored"
    by (rule normalizeWeeklyGoals_objects)
qed

theorem normalizeWeeklyGoals_legacy_idempotent_witness:
  "normalizeWeeklyGoals [GoalString ''improve balance'', GoalString ''say ten words'']
     = [\<lparr> goal = ''improve balance'', category = None \<rparr>,
        \<lparr> goal = ''say ten words'', category = None \<rparr>]
   \<and> normalizeWeeklyGoals
        [GoalObject \<lparr> goal = ''improve balance'', category = None \<rparr>,
         GoalObject \<lparr> goal = ''say ten words'', category = None \<rparr>]
     = [\<lparr> goal = ''improve balance'', category = None \<rparr>,
        \<lparr> goal = ''say ten words'', category = None \<rparr>]
   \<and> normalizeWeeklyGoals
        [GoalObject \<lparr> goal = ''improve balance'', category = Some motor \<rparr>, GoalString ''hop'']
     = [\<lparr> goal = ''improve balance'', category = Some motor \<rparr>,
        \<lparr> goal = ''hop'', category = None \<rparr>]"
  using normalizeWeeklyGoals_legacy_idempotent
      [of "[''improve balance'', ''say ten words'']"
          "[\<lparr> goal = ''improve balance'', category = None \<rparr>,
            \<lparr> goal = ''say ten words'', category = None \<rparr>]"
          "[GoalObject \<lparr> goal = ''improve balance'', category = Some motor \<rparr>, GoalString ''hop'']"]
  by (simp add: normalizeWeeklyGoals_def)

section \<open>Linking a child\<close>

text \<open>A parent cannot take a child that has another parent: nothing is written.\<close>

lemma handleAddChild_conflict:
  assumes "filter (\<lambda>(i, c). nationalId c = nid) docs = (docId, childData) # others"
    and "parentId_child childData \<noteq> []" and "parentId_child childData \<noteq> uid"
  shows "handleAddChild (Some uid) childName nid newId now docs = (Conflict, docs)"
  using assms by (simp add: handleAddChild_def)

text \<open>
  Claim C8, evaluated on the code. The child of document doc1 has therapist A in the
  collection; therapist B holds a search result of it from before that (no therapist, so
  the button is shown). handleAssignToMe succeeds and replaces therapist A by therapist B
  without any error. On the same collection a second parent is refused by handleAddChild
  and nothing changes.
\<close>

theorem assign_overwrites_therapist:
  "assignButtonShown (''doc1'', samExample ''parentA'' None)
   \<and> handleAssignToMe (Some ''therapistB'') (''doc1'', samExample ''parentA'' None)
        [(''doc1'', samExample ''parentA'' (Some ''therapistA''))]
     = (Linked, [(''doc1'', samExample ''parentA'' (Some ''therapistB''))])
   \<and> handleAddChild (Some ''parentB'') ''Sam'' ''1234567890'' ''doc2'' 5
        [(''doc1'', samExample ''parentA'' (Some ''therapistA''))]
     = (Conflict, [(''doc1'', samExample ''parentA'' (Some ''therapistA''))])"
  by (simp add: assignButtonShown_def handleAssignToMe_def handleAddChild_def updateDoc_def
      samExample_def)

end
